theory Spec2Isabelle
  imports Complex_Main
begin

section \<open>Conventions of the embedding\<close>

text \<open>
  The development embeds \<^verbatim>\<open>src/dqn_training.py\<close>. Python integers are modelled as
  \<^typ>\<open>int\<close>. Python floats are modelled as \<^typ>\<open>real\<close> (no rounding), except in the
  reward computation, whose claims depend on the range of floats: there infinities, NaN
  and overflow are modelled.
  An exception of the source is a value \<open>Inl e\<close> of a sum type. A dictionary key read
  with \<^verbatim>\<open>d[key]\<close> is a record field; a key read with \<^verbatim>\<open>d.get(key, default)\<close>
  is an optional field.
\<close>

datatype error = IndexError | ZeroDivisionError | ValueError | KeyError | FileNotFoundError
  | InvalidArgumentError | OverflowError

text \<open>Sequencing of computations that may raise: the first exception wins.\<close>

definition ebind :: "error + 'a \<Rightarrow> ('a \<Rightarrow> error + 'b) \<Rightarrow> error + 'b" where
  "ebind m f = (case m of Inl e \<Rightarrow> Inl e | Inr x \<Rightarrow> f x)"

text \<open>\<^verbatim>\<open>xs[i]\<close> for a constant index \<open>i \<ge> 0\<close>.\<close>

definition getitem :: "'a list \<Rightarrow> nat \<Rightarrow> error + 'a" where
  "getitem xs i = (if i < length xs then Inr (xs ! i) else Inl IndexError)"

text \<open>\<^verbatim>\<open>xs[i] = v\<close>: a negative index counts from the end.\<close>

definition setitem :: "'a list \<Rightarrow> int \<Rightarrow> 'a \<Rightarrow> error + 'a list" where
  "setitem xs i v =
     (let n = int (length xs) in
      if 0 \<le> i \<and> i < n then Inr (xs[nat i := v])
      else if - n \<le> i \<and> i < 0 then Inr (xs[nat (i + n) := v])
      else Inl IndexError)"

text \<open>\<^verbatim>\<open>a / b\<close> on Python numbers.\<close>

definition truediv :: "real \<Rightarrow> real \<Rightarrow> error + real" where
  "truediv a b = (if b = 0 then Inl ZeroDivisionError else Inr (a / b))"

section \<open>Observations\<close>

record critical_point =
  position :: "real list"
  color :: "int option"
  available :: bool

record game_state =
  agent_position :: "real list"
  critical_points :: "critical_point list"
  agent_owned_points :: "(int \<Rightarrow> int option) option"
  time_remaining :: "real option"
  navigation_grid :: "real list option"
  nearest_unclaimed_distance :: "real option"
  nearest_enemy_distance :: "real option"
  map_size :: "real option"

text \<open>\<^verbatim>\<open>d.get(key, default)\<close>.\<close>

definition get_or :: "'a option \<Rightarrow> 'a \<Rightarrow> 'a" where
  "get_or field dflt = (case field of None \<Rightarrow> dflt | Some v \<Rightarrow> v)"

section \<open>GameStateProcessor\<close>

record game_state_processor =
  max_cps :: int
  grid_size :: int
  cp_feature_dim :: int

definition GameStateProcessor :: "int \<Rightarrow> int \<Rightarrow> game_state_processor" where
  "GameStateProcessor max_critical_points grid_sz =
     \<lparr>max_cps = max_critical_points, grid_size = grid_sz, cp_feature_dim = 7\<rparr>"

definition compute_state_dim :: "game_state_processor \<Rightarrow> int" where
  "compute_state_dim p =
     (let agent_pos = 3;
          cp_features = max_cps p * cp_feature_dim p;
          nav_grid = grid_size p * grid_size p;
          time_rem = 1;
          distances = 2
      in agent_pos + cp_features + nav_grid + time_rem + distances)"

text \<open>
  The three normalised coordinates
  \<^verbatim>\<open>[(pos[0] + map_size/2) / map_size, pos[1] / 5, (pos[2] + map_size/2) / map_size]\<close>,
  which the source writes once for the agent and once for each critical point. The
  elements are evaluated left to right.
\<close>

definition normalized_pos :: "real list \<Rightarrow> real \<Rightarrow> error + real list" where
  "normalized_pos pos ms =
     ebind (getitem pos 0) (\<lambda>x.
     ebind (truediv (x + ms / 2) ms) (\<lambda>nx.
     ebind (getitem pos 1) (\<lambda>y.
     ebind (getitem pos 2) (\<lambda>z.
     ebind (truediv (z + ms / 2) ms) (\<lambda>nz.
     Inr [nx, y / 5, nz])))))"

text \<open>The one-hot colour of a critical point: \<^verbatim>\<open>min(int(color) + 1, 3)\<close> indexes a
  list of four zeros; no colour sets slot 0.\<close>

definition color_onehot :: "int option \<Rightarrow> error + real list" where
  "color_onehot c =
     (case c of
        Some col \<Rightarrow> (let color_idx = min (col + 1) 3 in setitem [0, 0, 0, 0] color_idx 1)
      | None \<Rightarrow> setitem [0, 0, 0, 0] 0 1)"

text \<open>The features appended for a critical point that is present:
  \<^verbatim>\<open>cp_pos + color_onehot + [available]\<close>.\<close>

definition cp_row :: "critical_point \<Rightarrow> real \<Rightarrow> error + real list" where
  "cp_row cp ms =
     ebind (normalized_pos (position cp) ms) (\<lambda>cp_pos.
     ebind (color_onehot (color cp)) (\<lambda>onehot.
     Inr (cp_pos @ onehot @ [if available cp then 1 else 0])))"

text \<open>The loop \<^verbatim>\<open>for i in range(self.max_cps)\<close>, over the indices still to visit, with
  \<^verbatim>\<open>cp_features\<close> as accumulator.\<close>

fun cp_loop :: "game_state_processor \<Rightarrow> critical_point list \<Rightarrow> real \<Rightarrow> nat list \<Rightarrow>
    real list \<Rightarrow> error + real list" where
  "cp_loop p cps ms [] cp_features = Inr cp_features"
| "cp_loop p cps ms (i # rest) cp_features =
     (if i < length cps
      then (case cp_row (cps ! i) ms of
              Inl e \<Rightarrow> Inl e
            | Inr row \<Rightarrow> cp_loop p cps ms rest (cp_features @ row))
      else cp_loop p cps ms rest (cp_features @ replicate (nat (cp_feature_dim p)) 0))"

definition process_state :: "game_state_processor \<Rightarrow> game_state \<Rightarrow> error + real list" where
  "process_state p g =
     (let agent_pos = agent_position g;
          ms = get_or (map_size g) 10
      in ebind (normalized_pos agent_pos ms) (\<lambda>npos.
         ebind (cp_loop p (critical_points g) ms [0 ..< nat (max_cps p)] []) (\<lambda>cp_features.
         (let nav_grid = get_or (navigation_grid g) (replicate (nat (grid_size p * grid_size p)) 0);
              time_rem = get_or (time_remaining g) 1;
              nearest_unclaimed = get_or (nearest_unclaimed_distance g) 1;
              nearest_enemy = get_or (nearest_enemy_distance g) 1
          in Inr (npos @ cp_features @ nav_grid @ [time_rem] @ [nearest_unclaimed, nearest_enemy])))))"

text \<open>The observation \<^verbatim>\<open>send_command_to_game\<close> returns (the mock state of the source).\<close>

definition mock_state :: game_state where
  "mock_state =
     \<lparr>agent_position = [0, 1, 0],
      critical_points =
        [\<lparr>position = [1, 1, 1], color = None, available = True\<rparr>,
         \<lparr>position = [-1, 1, -1], color = Some 1, available = False\<rparr>],
      agent_owned_points = Some (\<lambda>k. if k = 0 then Some 0 else if k = 1 then Some 1
                                      else if k = 2 then Some 0 else None),
      time_remaining = Some (8 / 10),
      navigation_grid = Some (replicate (15 * 15) 0),
      nearest_unclaimed_distance = Some (5 / 10),
      nearest_enemy_distance = Some (7 / 10),
      map_size = Some 10\<rparr>"

text \<open>The mock observation without critical points and with a navigation grid of one
  cell instead of \<open>15 * 15\<close>.\<close>

definition short_grid_state :: game_state where
  "short_grid_state = mock_state\<lparr>critical_points := [], navigation_grid := Some [0]\<rparr>"

section \<open>ReplayBuffer\<close>

text \<open>A transition is the tuple \<^verbatim>\<open>(state, action, reward, next_state, done)\<close>. The buffer
  is a \<^verbatim>\<open>collections.deque\<close> with a maximal length: appending to a full deque drops
  its oldest element. The maximal length is a natural number: \<^verbatim>\<open>deque\<close> refuses a negative
  one at construction.\<close>

type_synonym transition = "real list \<times> int \<times> real \<times> real list \<times> bool"

record replay_buffer =
  buffer :: "transition list"
  maxlen :: nat

definition ReplayBuffer :: "nat \<Rightarrow> replay_buffer" where
  "ReplayBuffer capacity = \<lparr>buffer = [], maxlen = capacity\<rparr>"

definition push :: "replay_buffer \<Rightarrow> transition \<Rightarrow> replay_buffer" where
  "push rb t =
     (if maxlen rb = 0 then rb
      else if length (buffer rb) < maxlen rb then rb\<lparr>buffer := buffer rb @ [t]\<rparr>
      else rb\<lparr>buffer := tl (buffer rb) @ [t]\<rparr>)"

text \<open>
  \<^verbatim>\<open>random.sample(population, k)\<close> of Python's standard library. It raises
  \<^verbatim>\<open>ValueError\<close> unless \<open>0 \<le> k \<le> len(population)\<close>, and returns the elements at the
  positions it selects, in selection order. The selection follows the library's pool
  method: a pool of the positions not yet selected; step \<open>i\<close> picks
  \<^verbatim>\<open>j = randbelow(n - i)\<close>, takes \<^verbatim>\<open>pool[j]\<close> and moves the last pool entry into the
  vacancy. The random source is an explicit stream \<open>rs\<close> of naturals: \<^verbatim>\<open>randbelow(m)\<close>
  is the next number of the stream modulo \<open>m\<close>. The library selects in this way from
  populations up to a size that grows with \<open>k\<close>; from larger ones it draws positions of
  the whole population and draws again when a position was selected before, which gives
  the same distribution of the selected positions and is not modelled apart.
\<close>

fun draw_indices :: "nat list \<Rightarrow> nat \<Rightarrow> (nat \<Rightarrow> nat) \<Rightarrow> nat list" where
  "draw_indices pool 0 rs = []"
| "draw_indices pool (Suc k) rs =
     (let j = rs 0 mod length pool
      in pool ! j # draw_indices (butlast (pool[j := last pool])) k (\<lambda>i. rs (Suc i)))"

definition random_sample :: "'a list \<Rightarrow> int \<Rightarrow> (nat \<Rightarrow> nat) \<Rightarrow> error + 'a list" where
  "random_sample population k rs =
     (let n = length population in
      if \<not> (0 \<le> k \<and> k \<le> int n) then Inl ValueError
      else Inr (map (\<lambda>i. population ! i) (draw_indices [0 ..< n] (nat k) rs)))"

text \<open>\<^verbatim>\<open>zip(*batch)\<close> on a batch of transitions: the five columns, each in the order
  of the batch.\<close>

definition unzip5 :: "transition list \<Rightarrow>
    real list list \<times> int list \<times> real list \<times> real list list \<times> bool list" where
  "unzip5 batch =
     (map (\<lambda>(s, a, r, s', d). s) batch, map (\<lambda>(s, a, r, s', d). a) batch,
      map (\<lambda>(s, a, r, s', d). r) batch, map (\<lambda>(s, a, r, s', d). s') batch,
      map (\<lambda>(s, a, r, s', d). d) batch)"

text \<open>
  \<^verbatim>\<open>tf.constant(column, dtype=...)\<close> on a column of a batch. TensorFlow raises
  \<^verbatim>\<open>ValueError\<close> when the vectors of a column of vectors do not all have one length, and
  when an integer of a column of integers is outside the range of \<^verbatim>\<open>int32\<close>. The
  \<^verbatim>\<open>float32\<close> value of a float is the parameter \<open>to_float32\<close>, the type \<open>'f\<close> standing for
  the \<^verbatim>\<open>float32\<close> values; a column of booleans is converted as it is.
\<close>

definition rectangular :: "'a list list \<Rightarrow> bool" where
  "rectangular rows = list_all (\<lambda>row. length row = length (hd rows)) rows"

definition in_int32 :: "int \<Rightarrow> bool" where
  "in_int32 v = (- (2 ^ 31) \<le> v \<and> v < 2 ^ 31)"

definition tf_constant_rows :: "(real \<Rightarrow> 'f) \<Rightarrow> real list list \<Rightarrow> error + 'f list list" where
  "tf_constant_rows to_float32 rows =
     (if rectangular rows then Inr (map (map to_float32) rows) else Inl ValueError)"

definition tf_constant_int32 :: "int list \<Rightarrow> error + int list" where
  "tf_constant_int32 values = (if list_all in_int32 values then Inr values else Inl ValueError)"

definition tf_constant_float32 :: "(real \<Rightarrow> 'f) \<Rightarrow> real list \<Rightarrow> error + 'f list" where
  "tf_constant_float32 to_float32 values = Inr (map to_float32 values)"

definition tf_constant_bool :: "bool list \<Rightarrow> error + bool list" where
  "tf_constant_bool values = Inr values"

text \<open>
  \<^verbatim>\<open>ReplayBuffer.sample\<close>. On an empty batch \<^verbatim>\<open>zip(*batch)\<close> yields nothing, and the
  unpacking into five names raises \<^verbatim>\<open>ValueError\<close>. The five tensors of the result are
  built from left to right.
\<close>

type_synonym 'f tensors = "'f list list \<times> int list \<times> 'f list \<times> 'f list list \<times> bool list"

definition sample :: "(real \<Rightarrow> 'f) \<Rightarrow> replay_buffer \<Rightarrow> int \<Rightarrow> (nat \<Rightarrow> nat) \<Rightarrow> error + 'f tensors" where
  "sample to_float32 rb batch_size rs =
     ebind (random_sample (buffer rb) batch_size rs) (\<lambda>batch.
       if batch = [] then Inl ValueError
       else
         (let (states, actions, rewards, next_states, dones) = unzip5 batch in
          ebind (tf_constant_rows to_float32 states) (\<lambda>states_t.
          ebind (tf_constant_int32 actions) (\<lambda>actions_t.
          ebind (tf_constant_float32 to_float32 rewards) (\<lambda>rewards_t.
          ebind (tf_constant_rows to_float32 next_states) (\<lambda>next_states_t.
          ebind (tf_constant_bool dones) (\<lambda>dones_t.
            Inr (states_t, actions_t, rewards_t, next_states_t, dones_t))))))))"

text \<open>The random stream that always yields 0, a buffer of two transitions, a buffer
  whose two state vectors differ in length, and a buffer with an action beyond
  \<^verbatim>\<open>int32\<close>.\<close>

definition zero_stream :: "nat \<Rightarrow> nat" where
  "zero_stream = (\<lambda>i. 0)"

definition two_transitions :: replay_buffer where
  "two_transitions =
     \<lparr>buffer = [([1], 0, 1, [2], False), ([2], 1, 0, [3], True)], maxlen = 10\<rparr>"

definition ragged_transitions :: replay_buffer where
  "ragged_transitions =
     \<lparr>buffer = [([1], 0, 1, [2], False), ([2, 2], 1, 0, [3], True)], maxlen = 10\<rparr>"

definition wide_action_transitions :: replay_buffer where
  "wide_action_transitions =
     \<lparr>buffer = [([1], 0, 1, [2], False), ([2], 2 ^ 31, 0, [3], True)], maxlen = 10\<rparr>"

section \<open>DQNNetwork\<close>

text \<open>
  A \<^verbatim>\<open>DQNNetwork\<close> is a Keras model whose \<^verbatim>\<open>__init__\<close> only creates layer objects
  (\<^verbatim>\<open>Dense\<close>, \<^verbatim>\<open>Dropout\<close>) without an input shape and never calls them. A Keras layer
  creates its variables when it is first called: until then the model has no weights
  and \<^verbatim>\<open>get_weights()\<close> is the empty list; at the first call every layer draws its
  weights from its initialiser (\<^verbatim>\<open>glorot_uniform\<close>, random). The network is modelled by
  the state of its variables. The type \<open>'w\<close> stands for the arrays of all its layers.
\<close>

datatype 'w dqn_network = Unbuilt | Built 'w

definition DQNNetwork :: "int \<Rightarrow> int \<Rightarrow> 'w dqn_network" where
  "DQNNetwork state_dm action_dm = Unbuilt"

text \<open>
  \<^verbatim>\<open>network(x, training=False)\<close>: returns the network after the call and its output.
  The arithmetic of the layers is a parameter \<open>forward\<close>, the function the layers compute
  from their weights and the input when dropout is inactive; \<open>init\<close> is the draw of the
  initialisers, used only when the variables do not exist yet.
\<close>

definition call_network :: "('w \<Rightarrow> real list \<Rightarrow> real list) \<Rightarrow> 'w dqn_network \<Rightarrow> 'w \<Rightarrow> real list \<Rightarrow>
    'w dqn_network \<times> real list" where
  "call_network forward net init x =
     (case net of
        Unbuilt \<Rightarrow> (Built init, forward init x)
      | Built w \<Rightarrow> (Built w, forward w x))"

text \<open>\<^verbatim>\<open>get_weights()\<close>: the list of the arrays, \<open>None\<close> standing for the empty list of
  a network without variables.\<close>

definition get_weights :: "'w dqn_network \<Rightarrow> 'w option" where
  "get_weights net = (case net of Unbuilt \<Rightarrow> None | Built w \<Rightarrow> Some w)"

text \<open>\<^verbatim>\<open>set_weights(weights)\<close>: Keras raises \<^verbatim>\<open>ValueError\<close> when the list does not have
  one array per variable of the network; two networks of one agent have the same
  layers, so that arrays of built networks fit.\<close>

definition set_weights :: "'w dqn_network \<Rightarrow> 'w option \<Rightarrow> error + 'w dqn_network" where
  "set_weights net weights =
     (case net of
        Unbuilt \<Rightarrow> (case weights of None \<Rightarrow> Inr Unbuilt | Some v \<Rightarrow> Inl ValueError)
      | Built w \<Rightarrow> (case weights of None \<Rightarrow> Inl ValueError | Some v \<Rightarrow> Inr (Built v)))"

text \<open>\<^verbatim>\<open>tf.argmax\<close> over the action values: the lowest index of a maximal value; an
  empty row is an error.\<close>

fun argmax_loop :: "real list \<Rightarrow> nat \<Rightarrow> real \<Rightarrow> nat \<Rightarrow> nat" where
  "argmax_loop [] i best best_i = best_i"
| "argmax_loop (x # xs) i best best_i =
     (if best < x then argmax_loop xs (Suc i) x i else argmax_loop xs (Suc i) best best_i)"

definition argmax :: "real list \<Rightarrow> error + int" where
  "argmax q_values =
     (case q_values of
        [] \<Rightarrow> Inl InvalidArgumentError
      | q # qs \<Rightarrow> Inr (int (argmax_loop qs 1 q 0)))"

section \<open>DQNAgent\<close>

text \<open>The type \<open>'o\<close> is the state of the optimiser.\<close>

record ('w, 'o) dqn_agent =
  state_dim :: int
  action_dim :: int
  epsilon :: real
  epsilon_end :: real
  epsilon_decay :: real
  gamma :: real
  batch_size :: int
  target_update_freq :: int
  q_network :: "'w dqn_network"
  target_network :: "'w dqn_network"
  optimizer :: 'o
  memory :: replay_buffer
  step_count :: int
  loss_history :: "real list"

definition update_target_network :: "('w, 'o) dqn_agent \<Rightarrow> error + ('w, 'o) dqn_agent" where
  "update_target_network a =
     ebind (set_weights (target_network a) (get_weights (q_network a))) (\<lambda>net.
       Inr (a\<lparr>target_network := net\<rparr>))"

text \<open>
  \<^verbatim>\<open>DQNAgent.__init__\<close>; \<open>adam\<close> stands for \<^verbatim>\<open>tf.keras.optimizers.Adam\<close>. The source
  assigns the buffer and the metrics after \<^verbatim>\<open>update_target_network()\<close>, which does not
  read them.
\<close>

definition DQNAgent :: "(real \<Rightarrow> 'o) \<Rightarrow> int \<Rightarrow> int \<Rightarrow> real \<Rightarrow> real \<Rightarrow> real \<Rightarrow> real \<Rightarrow> real \<Rightarrow>
    int \<Rightarrow> int \<Rightarrow> error + ('w, 'o) dqn_agent" where
  "DQNAgent adam state_dm action_dm learning_rate epsilon_start epsilon_nd epsilon_dcy gmma
      target_update_frq batch_sz =
     update_target_network
       \<lparr>state_dim = state_dm, action_dim = action_dm, epsilon = epsilon_start,
        epsilon_end = epsilon_nd, epsilon_decay = epsilon_dcy, gamma = gmma,
        batch_size = batch_sz, target_update_freq = target_update_frq,
        q_network = DQNNetwork state_dm action_dm,
        target_network = DQNNetwork state_dm action_dm,
        optimizer = adam learning_rate,
        memory = ReplayBuffer 100000, step_count = 0, loss_history = []\<rparr>"

text \<open>
  \<^verbatim>\<open>select_action\<close>. The random source of Python is explicit: \<open>u\<close> is the value of
  \<^verbatim>\<open>random.random()\<close> and \<open>r\<close> the number \<^verbatim>\<open>random.randint\<close> reduces to its range
  (which is empty, a \<^verbatim>\<open>ValueError\<close>, when \<open>action_dim - 1 < 0\<close>); both are read only when
  the source calls them. The result is the agent after the call and the action.
\<close>

definition select_action :: "('w \<Rightarrow> real list \<Rightarrow> real list) \<Rightarrow> ('w, 'o) dqn_agent \<Rightarrow> real list \<Rightarrow> bool \<Rightarrow>
    real \<Rightarrow> nat \<Rightarrow> 'w \<Rightarrow> ('w, 'o) dqn_agent \<times> (error + int)" where
  "select_action forward a state training u r init =
     (if training \<and> u < epsilon a
      then (if action_dim a - 1 < 0 then (a, Inl ValueError)
            else (a, Inr (int (r mod nat (action_dim a)))))
      else (let (net, q_values) = call_network forward (q_network a) init state
            in (a\<lparr>q_network := net\<rparr>, argmax q_values)))"

definition store_experience :: "('w, 'o) dqn_agent \<Rightarrow> real list \<Rightarrow> int \<Rightarrow> real \<Rightarrow> real list \<Rightarrow> bool \<Rightarrow>
    ('w, 'o) dqn_agent" where
  "store_experience a state action reward next_state done =
     a\<lparr>memory := push (memory a) (state, action, reward, next_state, done)\<rparr>"

text \<open>
  \<^verbatim>\<open>train_step\<close>. The result is the agent after the call and what the call returns
  (\<open>None\<close> for the warm-up return) or raises. The optimisation between sampling and the
  update of \<open>epsilon\<close> (the two forward passes, the Huber loss, the clipped gradients and
  their application by the optimiser) is the parameter \<open>learn\<close>: from \<open>gamma\<close>, the online
  and target weights, the optimiser state, the dropout randomness \<open>drop_mask\<close> and the batch
  it gives the new online weights, the new optimiser state and the loss. Both networks
  are called in that part, so both have variables afterwards; \<open>q_init\<close> and \<open>target_init\<close>
  are the draws of their initialisers, \<open>rs\<close> the random stream of the sampling. That part
  raises where TensorFlow does (on a batch whose vectors do not have the width of the
  networks' input, for instance): \<open>learn\<close> then gives the exception and, for each of the
  two networks, whether it had been called before the exception; the weights are not
  updated. The remainder \<^verbatim>\<open>step_count % target_update_freq\<close> raises when the period is
  0.
\<close>

definition train_step ::
  "(real \<Rightarrow> 'f) \<Rightarrow>
   (real \<Rightarrow> 'w \<Rightarrow> 'w \<Rightarrow> 'o \<Rightarrow> 'm \<Rightarrow> 'f tensors \<Rightarrow> (error \<times> bool \<times> bool) + ('w \<times> 'o \<times> real)) \<Rightarrow>
    (nat \<Rightarrow> nat) \<Rightarrow> 'w \<Rightarrow> 'w \<Rightarrow> 'm \<Rightarrow> ('w, 'o) dqn_agent \<Rightarrow>
    ('w, 'o) dqn_agent \<times> (error + real option)" where
  "train_step to_float32 learn rs q_init target_init drop_mask a =
     (if int (length (buffer (memory a))) < batch_size a then (a, Inr None)
      else
        (case sample to_float32 (memory a) (batch_size a) rs of
           Inl e \<Rightarrow> (a, Inl e)
         | Inr batch \<Rightarrow>
            (let q = (case q_network a of Unbuilt \<Rightarrow> q_init | Built w \<Rightarrow> w);
                 t = (case target_network a of Unbuilt \<Rightarrow> target_init | Built w \<Rightarrow> w)
             in case learn (gamma a) q t (optimizer a) drop_mask batch of
                  Inl (e, q_called, target_called) \<Rightarrow>
                    (a\<lparr>q_network := (if q_called then Built q else q_network a),
                       target_network := (if target_called then Built t else target_network a)\<rparr>,
                     Inl e)
                | Inr (q', opt', loss) \<Rightarrow>
                    (let a1 = a\<lparr>q_network := Built q', target_network := Built t,
                                 optimizer := opt'\<rparr>;
                         a2 = a1\<lparr>epsilon := max (epsilon_end a1) (epsilon a1 * epsilon_decay a1)\<rparr>;
                         a3 = a2\<lparr>step_count := step_count a2 + 1\<rparr>
                     in if target_update_freq a3 = 0 then (a3, Inl ZeroDivisionError)
                        else
                          (case (if step_count a3 mod target_update_freq a3 = 0
                                 then update_target_network a3 else Inr a3) of
                             Inl e \<Rightarrow> (a3, Inl e)
                           | Inr a4 \<Rightarrow>
                              (a4\<lparr>loss_history := loss_history a4 @ [loss]\<rparr>,
                               Inr (Some loss)))))))"

text \<open>Successive \<open>train_step\<close> calls on one agent, each with its own random inputs; a
  call that raises leaves the agent as it was at the raise.\<close>

fun train_steps ::
  "(real \<Rightarrow> 'f) \<Rightarrow>
   (real \<Rightarrow> 'w \<Rightarrow> 'w \<Rightarrow> 'o \<Rightarrow> 'm \<Rightarrow> 'f tensors \<Rightarrow> (error \<times> bool \<times> bool) + ('w \<times> 'o \<times> real)) \<Rightarrow>
    ((nat \<Rightarrow> nat) \<times> 'w \<times> 'w \<times> 'm) list \<Rightarrow> ('w, 'o) dqn_agent \<Rightarrow> ('w, 'o) dqn_agent" where
  "train_steps to_float32 learn [] a = a"
| "train_steps to_float32 learn ((rs, q_init, target_init, drop_mask) # calls) a =
     train_steps to_float32 learn calls
       (fst (train_step to_float32 learn rs q_init target_init drop_mask a))"

section \<open>Checkpoints\<close>

text \<open>
  \<^verbatim>\<open>save\<close> writes three files: the weights of the two networks and a JSON object with
  the keys \<^verbatim>\<open>epsilon\<close>, \<^verbatim>\<open>step_count\<close> and \<^verbatim>\<open>loss_history\<close>. The file system is a map
  from paths to contents. A JSON file is the object it holds, a key that is absent being
  \<open>None\<close>; a weights file is the state of the variables of the network it was saved
  from. The packaging of both formats is the libraries' and is not modelled; JSON numbers
  are read back as they were written.
\<close>

record checkpoint =
  ck_epsilon :: "real option"
  ck_step_count :: "int option"
  ck_loss_history :: "real list option"

datatype 'w file_content = Weights_file "'w dqn_network" | Json_file checkpoint

type_synonym 'w filesystem = "string \<Rightarrow> 'w file_content option"

definition save :: "('w, 'o) dqn_agent \<Rightarrow> string \<Rightarrow> 'w filesystem \<Rightarrow> 'w filesystem" where
  "save a filepath fs =
     (let checkpoint = \<lparr>ck_epsilon = Some (epsilon a), ck_step_count = Some (step_count a),
                         ck_loss_history = Some (loss_history a)\<rparr>;
          fs1 = fs(filepath @ ''_q_network'' \<mapsto> Weights_file (q_network a));
          fs2 = fs1(filepath @ ''_target_network'' \<mapsto> Weights_file (target_network a))
      in fs2(filepath @ ''_state.json'' \<mapsto> Json_file checkpoint))"

text \<open>\<^verbatim>\<open>network.load_weights(path)\<close>: a file saved from a network without variables
  holds no values and changes nothing; otherwise the network has the values of the
  file.\<close>

definition load_weights :: "'w dqn_network \<Rightarrow> 'w filesystem \<Rightarrow> string \<Rightarrow> error + 'w dqn_network" where
  "load_weights net fs path =
     (case fs path of
        None \<Rightarrow> Inl FileNotFoundError
      | Some (Json_file c) \<Rightarrow> Inl ValueError
      | Some (Weights_file Unbuilt) \<Rightarrow> Inr net
      | Some (Weights_file (Built w)) \<Rightarrow> Inr (Built w))"

text \<open>\<^verbatim>\<open>load\<close>: the agent after the call, and whether the call returned or raised. A key
  missing from the JSON object is a \<^verbatim>\<open>KeyError\<close> at the assignment that reads it.\<close>

definition load :: "('w, 'o) dqn_agent \<Rightarrow> string \<Rightarrow> 'w filesystem \<Rightarrow>
    ('w, 'o) dqn_agent \<times> (error + unit)" where
  "load a filepath fs =
     (case load_weights (q_network a) fs (filepath @ ''_q_network'') of
        Inl e \<Rightarrow> (a, Inl e)
      | Inr q \<Rightarrow>
         (let a1 = a\<lparr>q_network := q\<rparr> in
          case load_weights (target_network a1) fs (filepath @ ''_target_network'') of
            Inl e \<Rightarrow> (a1, Inl e)
          | Inr t \<Rightarrow>
             (let a2 = a1\<lparr>target_network := t\<rparr> in
              case fs (filepath @ ''_state.json'') of
                None \<Rightarrow> (a2, Inl FileNotFoundError)
              | Some (Weights_file n) \<Rightarrow> (a2, Inl ValueError)
              | Some (Json_file checkpoint) \<Rightarrow>
                 (case ck_epsilon checkpoint of
                    None \<Rightarrow> (a2, Inl KeyError)
                  | Some e \<Rightarrow>
                     (let a3 = a2\<lparr>epsilon := e\<rparr> in
                      case ck_step_count checkpoint of
                        None \<Rightarrow> (a3, Inl KeyError)
                      | Some n \<Rightarrow>
                         (let a4 = a3\<lparr>step_count := n\<rparr> in
                          case ck_loss_history checkpoint of
                            None \<Rightarrow> (a4, Inl KeyError)
                          | Some l \<Rightarrow> (a4\<lparr>loss_history := l\<rparr>, Inr ())))))))"

section \<open>Floating-point values of the reward\<close>

text \<open>
  The reward is computed in Python floats (IEEE 754 doubles) and the claims about it
  depend on their range, so the reward computation is modelled on values that are a
  finite number, an infinity or NaN. A finite double is the real number it denotes. The
  rounding of finite results is not modelled: the result of an operation is its exact
  value when the magnitude of that value is below \<open>2^1024 - 2^970\<close>, the least magnitude
  that rounds to an infinity, and the infinity of its sign otherwise.
\<close>

datatype pyfloat = Finite real | PosInf | NegInf | NaN

definition float_threshold :: real where
  "float_threshold = 2 ^ 1024 - 2 ^ 970"

definition to_float :: "real \<Rightarrow> pyfloat" where
  "to_float x = (if float_threshold \<le> x then PosInf
                 else if x \<le> - float_threshold then NegInf else Finite x)"

text \<open>\<^verbatim>\<open>x + y\<close>, \<^verbatim>\<open>-x\<close>, \<^verbatim>\<open>x - y\<close> and \<^verbatim>\<open>x * y\<close> on floats: they never raise.\<close>

fun fadd :: "pyfloat \<Rightarrow> pyfloat \<Rightarrow> pyfloat" where
  "fadd (Finite x) (Finite y) = to_float (x + y)"
| "fadd NaN y = NaN"
| "fadd x NaN = NaN"
| "fadd PosInf NegInf = NaN"
| "fadd NegInf PosInf = NaN"
| "fadd PosInf y = PosInf"
| "fadd x PosInf = PosInf"
| "fadd NegInf y = NegInf"
| "fadd x NegInf = NegInf"

fun fneg :: "pyfloat \<Rightarrow> pyfloat" where
  "fneg (Finite x) = Finite (- x)"
| "fneg PosInf = NegInf"
| "fneg NegInf = PosInf"
| "fneg NaN = NaN"

definition fsub :: "pyfloat \<Rightarrow> pyfloat \<Rightarrow> pyfloat" where
  "fsub x y = fadd x (fneg y)"

fun fmul :: "pyfloat \<Rightarrow> pyfloat \<Rightarrow> pyfloat" where
  "fmul (Finite x) (Finite y) = to_float (x * y)"
| "fmul NaN y = NaN"
| "fmul x NaN = NaN"
| "fmul (Finite x) PosInf = (if x = 0 then NaN else if 0 < x then PosInf else NegInf)"
| "fmul (Finite x) NegInf = (if x = 0 then NaN else if 0 < x then NegInf else PosInf)"
| "fmul PosInf (Finite y) = (if y = 0 then NaN else if 0 < y then PosInf else NegInf)"
| "fmul NegInf (Finite y) = (if y = 0 then NaN else if 0 < y then NegInf else PosInf)"
| "fmul PosInf PosInf = PosInf"
| "fmul NegInf NegInf = PosInf"
| "fmul PosInf NegInf = NegInf"
| "fmul NegInf PosInf = NegInf"

text \<open>\<^verbatim>\<open>x < y\<close> on floats: false when an operand is NaN.\<close>

fun fless :: "pyfloat \<Rightarrow> pyfloat \<Rightarrow> bool" where
  "fless (Finite x) (Finite y) = (x < y)"
| "fless NaN y = False"
| "fless x NaN = False"
| "fless x NegInf = False"
| "fless NegInf y = True"
| "fless PosInf y = False"
| "fless x PosInf = True"

text \<open>\<^verbatim>\<open>x ** 2\<close> on a float: Python raises \<^verbatim>\<open>OverflowError\<close> when the square of a finite
  operand is out of range.\<close>

fun pow2 :: "pyfloat \<Rightarrow> error + pyfloat" where
  "pow2 (Finite x) = (if float_threshold \<le> x * x then Inl OverflowError else Inr (Finite (x * x)))"
| "pow2 PosInf = Inr PosInf"
| "pow2 NegInf = Inr PosInf"
| "pow2 NaN = Inr NaN"

text \<open>\<^verbatim>\<open>x ** 0.5\<close> on a float that is not negative (the operand is a sum of
  squares).\<close>

fun pow_half :: "pyfloat \<Rightarrow> pyfloat" where
  "pow_half (Finite x) = Finite (sqrt x)"
| "pow_half PosInf = PosInf"
| "pow_half NegInf = PosInf"
| "pow_half NaN = NaN"

text \<open>The conversion of a Python integer to a float, as in \<^verbatim>\<open>1.0 * n\<close>: it raises
  \<^verbatim>\<open>OverflowError\<close> when the integer is out of the range of floats.\<close>

definition int_to_float :: "int \<Rightarrow> error + pyfloat" where
  "int_to_float n = (if float_threshold \<le> \<bar>real_of_int n\<bar> then Inl OverflowError
                     else Inr (Finite (real_of_int n)))"

text \<open>\<^verbatim>\<open>np.clip(x, lo, hi)\<close> for finite bounds: NaN stays NaN.\<close>

fun np_clip :: "pyfloat \<Rightarrow> real \<Rightarrow> real \<Rightarrow> pyfloat" where
  "np_clip (Finite x) lo hi = Finite (min (max x lo) hi)"
| "np_clip PosInf lo hi = Finite hi"
| "np_clip NegInf lo hi = Finite lo"
| "np_clip NaN lo hi = NaN"

section \<open>GameEnvironment: the reward\<close>

record game_environment =
  max_episode_steps :: int
  current_step :: int
  processor :: game_state_processor
  previous_owned_points :: int
  previous_position :: "real list option"

definition GameEnvironment :: "int \<Rightarrow> game_environment" where
  "GameEnvironment max_steps =
     \<lparr>max_episode_steps = max_steps, current_step = 0, processor = GameStateProcessor 50 15,
      previous_owned_points = 0, previous_position = None\<rparr>"

text \<open>The local function \<^verbatim>\<open>distance\<close>:
  \<^verbatim>\<open>sum((a - b) ** 2 for a, b in zip(p1, p2)) ** 0.5\<close>. The coordinates are finite
  floats. \<^verbatim>\<open>sum\<close> starts from 0 and takes the squares one by one, in the order of the
  coordinates; the first square that raises ends the computation.\<close>

fun sum_squares :: "pyfloat \<Rightarrow> (real \<times> real) list \<Rightarrow> error + pyfloat" where
  "sum_squares acc [] = Inr acc"
| "sum_squares acc ((a, b) # rest) =
     (case pow2 (fsub (Finite a) (Finite b)) of
        Inl e \<Rightarrow> Inl e
      | Inr sq \<Rightarrow> sum_squares (fadd acc sq) rest)"

definition distance :: "real list \<Rightarrow> real list \<Rightarrow> error + pyfloat" where
  "distance p1 p2 = ebind (sum_squares (Finite 0) (zip p1 p2)) (\<lambda>s. Inr (pow_half s))"

definition is_target :: "string \<Rightarrow> int option \<Rightarrow> critical_point \<Rightarrow> bool" where
  "is_target target_type agent_id cp =
     (if target_type = ''unclaimed'' \<and> color cp = None then True
      else if target_type = ''enemy'' \<and> color cp \<noteq> None \<and> color cp \<noteq> agent_id then True
      else False)"

text \<open>\<^verbatim>\<open>min\<close> over the distances to the target points, of which there is at least
  one: the distances are computed one by one, and a later one replaces the least so far
  when it is less.\<close>

fun min_loop :: "real list \<Rightarrow> pyfloat \<Rightarrow> real list list \<Rightarrow> error + pyfloat" where
  "min_loop pos least [] = Inr least"
| "min_loop pos least (tp # tps) =
     (case distance pos tp of
        Inl e \<Rightarrow> Inl e
      | Inr d \<Rightarrow> min_loop pos (if fless d least then d else least) tps)"

definition min_distance :: "real list \<Rightarrow> real list \<Rightarrow> real list list \<Rightarrow> error + pyfloat" where
  "min_distance pos tp tps = ebind (distance pos tp) (\<lambda>d. min_loop pos d tps)"

definition get_proximity_reward :: "real list \<Rightarrow> real list \<Rightarrow> critical_point list \<Rightarrow> string \<Rightarrow>
    real \<Rightarrow> int option \<Rightarrow> error + pyfloat" where
  "get_proximity_reward current_pos prev_pos cps target_type reward_scale agent_id =
     (if cps = [] then Inr (Finite 0)
      else
        (case map position (filter (is_target target_type agent_id) cps) of
           [] \<Rightarrow> Inr (Finite 0)
         | tp # tps \<Rightarrow>
            ebind (min_distance prev_pos tp tps) (\<lambda>min_prev_dist.
            ebind (min_distance current_pos tp tps) (\<lambda>min_curr_dist.
              (let distance_change = fsub min_prev_dist min_curr_dist
               in Inr (fmul (Finite reward_scale) distance_change))))))"

text \<open>\<^verbatim>\<open>calculate_reward\<close>: the environment after the call, and the reward or the
  exception. The dictionary \<^verbatim>\<open>agent_owned_points\<close> is keyed by \<^verbatim>\<open>str(agent_id)\<close>, here by
  the agent id. A call that raises leaves the environment as it was at the raise.\<close>

definition calculate_reward :: "game_environment \<Rightarrow> game_state \<Rightarrow> int \<Rightarrow>
    game_environment \<times> (error + pyfloat)" where
  "calculate_reward env state agent_id =
     (let reward0 = Finite 0;
          current_owned = get_or (get_or (agent_owned_points state) (\<lambda>k. None) agent_id) 0;
          point_change = current_owned - previous_owned_points env
      in case (if point_change > 0
               then ebind (int_to_float point_change) (\<lambda>c.
                      Inr (fadd reward0 (fmul (Finite 1) c)))
               else if point_change < 0
               then ebind (int_to_float \<bar>point_change\<bar>) (\<lambda>c.
                      Inr (fadd reward0 (fmul (Finite (- 1)) c)))
               else Inr reward0) of
           Inl e \<Rightarrow> (env, Inl e)
         | Inr reward1 \<Rightarrow>
            (let env1 = env\<lparr>previous_owned_points := current_owned\<rparr>;
                 current_position = agent_position state
             in case (case previous_position env1 of
                        None \<Rightarrow> Inr reward1
                      | Some prev \<Rightarrow>
                         ebind (get_proximity_reward current_position prev
                                  (critical_points state) ''unclaimed'' (1 / 10) None)
                           (\<lambda>unclaimed_reward.
                         ebind (get_proximity_reward current_position prev
                                  (critical_points state) ''enemy'' (2 / 10) (Some agent_id))
                           (\<lambda>enemy_reward.
                         Inr (fadd reward1 (fadd unclaimed_reward enemy_reward))))) of
                  Inl e \<Rightarrow> (env1, Inl e)
                | Inr reward2 \<Rightarrow>
                   (let env2 = env1\<lparr>previous_position := Some current_position\<rparr>;
                        reward3 = fsub reward2 (Finite (1 / 100))
                    in (env2, Inr (np_clip reward3 (- 5) 5)))))"

fun reward_calls :: "game_environment \<Rightarrow> (game_state \<times> int) list \<Rightarrow> (error + pyfloat) list" where
  "reward_calls env [] = []"
| "reward_calls env ((state, agent_id) # calls) =
     (let (env', reward) = calculate_reward env state agent_id
      in reward # reward_calls env' calls)"

section \<open>BridgedGameEnvironment: the reward\<close>

text \<open>
  The second implementation of the reward, \<^verbatim>\<open>BridgedGameEnvironment.calculate_reward\<close> in
  \<^verbatim>\<open>src/game_bridge.py\<close>. It keeps the dictionary \<^verbatim>\<open>previous_states\<close>, from an agent id to
  that agent's owned points and position at its previous call; an agent that is not in
  the dictionary starts from no points at \<^verbatim>\<open>[0, 1, 0]\<close>. Its proximity reward compares a
  colour with \<open>-1\<close> when no agent id is passed.
\<close>

record bridged_game_environment =
  previous_states :: "int \<Rightarrow> (int \<times> real list) option"

definition bridge_is_target :: "string \<Rightarrow> int option \<Rightarrow> critical_point \<Rightarrow> bool" where
  "bridge_is_target target_type agent_id cp =
     (if target_type = ''unclaimed'' \<and> color cp = None then True
      else if target_type = ''enemy'' \<and> color cp \<noteq> None
              \<and> color cp \<noteq> Some (case agent_id of None \<Rightarrow> - 1 | Some i \<Rightarrow> i) then True
      else False)"

definition bridge_get_proximity_reward :: "real list \<Rightarrow> real list \<Rightarrow> critical_point list \<Rightarrow>
    string \<Rightarrow> real \<Rightarrow> int option \<Rightarrow> error + pyfloat" where
  "bridge_get_proximity_reward current_pos prev_pos cps target_type reward_scale agent_id =
     (if cps = [] then Inr (Finite 0)
      else
        (case map position (filter (bridge_is_target target_type agent_id) cps) of
           [] \<Rightarrow> Inr (Finite 0)
         | tp # tps \<Rightarrow>
            ebind (min_distance prev_pos tp tps) (\<lambda>min_prev_dist.
            ebind (min_distance current_pos tp tps) (\<lambda>min_curr_dist.
              (let distance_improvement = fsub min_prev_dist min_curr_dist
               in Inr (fmul (Finite reward_scale) distance_improvement))))))"

text \<open>The entry of the agent is created before anything can raise, and is replaced by
  the current count and position at the end of a call that returns.\<close>

definition bridge_calculate_reward :: "bridged_game_environment \<Rightarrow> game_state \<Rightarrow> int \<Rightarrow>
    bridged_game_environment \<times> (error + pyfloat)" where
  "bridge_calculate_reward env state agent_id =
     (let reward0 = Finite 0;
          (prev_owned, prev_pos) =
             (case previous_states env agent_id of None \<Rightarrow> (0, [0, 1, 0]) | Some p \<Rightarrow> p);
          env0 = env\<lparr>previous_states := (previous_states env)(agent_id \<mapsto> (prev_owned, prev_pos))\<rparr>;
          current_owned = get_or (get_or (agent_owned_points state) (\<lambda>k. None) agent_id) 0;
          point_change = current_owned - prev_owned;
          current_pos = agent_position state
      in case
           ebind (if point_change > 0
                  then ebind (int_to_float point_change) (\<lambda>c.
                         Inr (fadd reward0 (fmul (Finite 1) c)))
                  else if point_change < 0
                  then ebind (int_to_float \<bar>point_change\<bar>) (\<lambda>c.
                         Inr (fadd reward0 (fmul (Finite (- 1)) c)))
                  else Inr reward0) (\<lambda>reward1.
           ebind (bridge_get_proximity_reward current_pos prev_pos
                    (critical_points state) ''unclaimed'' (1 / 10) None) (\<lambda>unclaimed_reward.
           ebind (bridge_get_proximity_reward current_pos prev_pos
                    (critical_points state) ''enemy'' (2 / 10) (Some agent_id)) (\<lambda>enemy_reward.
             Inr (fsub (fadd reward1 (fadd unclaimed_reward enemy_reward)) (Finite (1 / 100))))))
         of
           Inl e \<Rightarrow> (env0, Inl e)
         | Inr reward3 \<Rightarrow>
            (env0\<lparr>previous_states :=
                     (previous_states env0)(agent_id \<mapsto> (current_owned, current_pos))\<rparr>,
             Inr (np_clip reward3 (- 5) 5)))"

section \<open>Concrete instances\<close>

text \<open>A network with one weight that scales its input, an optimisation step that halves
  the online weight and reports loss 1, and an optimiser state that is its learning
  rate.\<close>

definition forward_scale :: "real \<Rightarrow> real list \<Rightarrow> real list" where
  "forward_scale w x = map (\<lambda>v. w * v) x"

definition learn_halve :: "real \<Rightarrow> real \<Rightarrow> real \<Rightarrow> real \<Rightarrow> unit \<Rightarrow> real tensors \<Rightarrow>
    (error \<times> bool \<times> bool) + (real \<times> real \<times> real)" where
  "learn_halve gmma q t opt drop_mask batch = Inr (q / 2, opt, 1)"

text \<open>The \<^verbatim>\<open>float32\<close> values that the concrete instances use are represented exactly.\<close>

definition float32_exact :: "real \<Rightarrow> real" where
  "float32_exact x = x"

definition adam_rate :: "real \<Rightarrow> real" where
  "adam_rate learning_rate = learning_rate"

text \<open>An agent in training: both networks have variables, two transitions are stored,
  the batch size is 2 and the target network is synchronised every second step.\<close>

definition trained_agent :: "(real, real) dqn_agent" where
  "trained_agent =
     \<lparr>state_dim = 2, action_dim = 2, epsilon = 1, epsilon_end = 5 / 100,
      epsilon_decay = 995 / 1000, gamma = 99 / 100, batch_size = 2, target_update_freq = 2,
      q_network = Built 1, target_network = Built 3, optimizer = 1 / 10000,
      memory = two_transitions, step_count = 1, loss_history = []\<rparr>"

text \<open>The agent \<^verbatim>\<open>DQNAgent(state_dim=581)\<close> as its constructor leaves it, for this
  optimiser state.\<close>

definition fresh_agent :: "(real, real) dqn_agent" where
  "fresh_agent =
     \<lparr>state_dim = 581, action_dim = 5, epsilon = 1, epsilon_end = 5 / 100,
      epsilon_decay = 995 / 1000, gamma = 99 / 100, batch_size = 64, target_update_freq = 1000,
      q_network = Unbuilt, target_network = Unbuilt, optimizer = 1 / 10000,
      memory = ReplayBuffer 100000, step_count = 0, loss_history = []\<rparr>"

text \<open>An observation with finite coordinates of magnitude \<open>2^1023\<close>, the greatest
  power of two among the floats: the agent on one side and an unclaimed critical point
  on the other.\<close>

definition float_far :: real where
  "float_far = 2 ^ 1023"

definition far_state :: game_state where
  "far_state = mock_state\<lparr>agent_position := [float_far, 1, 0],
     critical_points := [\<lparr>position = [- float_far, 1, 0], color = None, available = True\<rparr>]\<rparr>"

section \<open>Properties of the state encoder\<close>

lemma compute_state_dim_formula:
  "compute_state_dim (GameStateProcessor max_points gs) = 3 + max_points * 7 + gs * gs + 1 + 2"
  by (simp add: compute_state_dim_def GameStateProcessor_def)

lemma normalized_pos_length: "normalized_pos pos ms = Inr v \<Longrightarrow> length v = 3"
  by (auto simp: normalized_pos_def ebind_def split: sum.splits)

lemma setitem_length: "setitem xs i x = Inr ys \<Longrightarrow> length ys = length xs"
  by (auto simp: setitem_def Let_def split: if_splits)

lemma color_onehot_length: "color_onehot c = Inr v \<Longrightarrow> length v = 4"
  by (cases c) (auto simp: color_onehot_def Let_def dest: setitem_length)

text \<open>A critical point that is present contributes eight values, one more than
  \<open>cp_feature_dim\<close>.\<close>

lemma cp_row_length: "cp_row cp ms = Inr v \<Longrightarrow> length v = 8"
  by (auto simp: cp_row_def ebind_def split: sum.splits
      dest!: normalized_pos_length color_onehot_length)

lemma cp_loop_length:
  "cp_loop p cps ms idxs acc = Inr v \<Longrightarrow>
   length v = length acc + 8 * length (filter (\<lambda>i. i < length cps) idxs)
              + nat (cp_feature_dim p) * length (filter (\<lambda>i. \<not> i < length cps) idxs)"
proof (induction idxs arbitrary: acc)
  case Nil
  then show ?case by simp
next
  case (Cons i rest)
  show ?case
  proof (cases "i < length cps")
    case True
    with Cons.prems obtain row where r: "cp_row (cps ! i) ms = Inr row"
      and l: "cp_loop p cps ms rest (acc @ row) = Inr v"
      by (auto split: sum.splits)
    from Cons.IH[OF l] cp_row_length[OF r] True show ?thesis by simp
  next
    case False
    with Cons.prems
    have "cp_loop p cps ms rest (acc @ replicate (nat (cp_feature_dim p)) 0) = Inr v"
      by simp
    from Cons.IH[OF this] False show ?thesis by simp
  qed
qed

lemma filter_upt_less: "length (filter (\<lambda>i. i < m) [0 ..< n]) = min n m"
  by (induction n) auto

lemma filter_upt_not_less: "length (filter (\<lambda>i. \<not> i < m) [0 ..< n]) = n - m"
  by (induction n) auto

text \<open>The length of every encoded vector: eight values per encoded critical point, \<open>cp_feature_dim\<close>
  zeros per missing one, and the navigation grid as it came.\<close>

lemma process_state_length:
  assumes "process_state p g = Inr v"
  shows "length v = 3 + 8 * min (nat (max_cps p)) (length (critical_points g))
            + nat (cp_feature_dim p) * (nat (max_cps p) - length (critical_points g))
            + length (get_or (navigation_grid g) (replicate (nat (grid_size p * grid_size p)) 0))
            + 3"
  using assms
  by (auto simp: process_state_def ebind_def Let_def filter_upt_less filter_upt_not_less
      split: sum.splits dest!: normalized_pos_length cp_loop_length)

text \<open>With a navigation grid of the right size and a non-negative number of points, the
  encoded vector is longer than \<open>compute_state_dim\<close> by the number of critical points
  that are encoded.\<close>

lemma process_state_excess:
  assumes r: "process_state (GameStateProcessor mp gs) g = Inr v"
    and mp: "0 \<le> mp"
    and ng: "length (get_or (navigation_grid g) (replicate (nat (gs * gs)) 0)) = nat (gs * gs)"
  shows "int (length v) = compute_state_dim (GameStateProcessor mp gs)
                         + int (min (nat mp) (length (critical_points g)))"
proof -
  have sq: "0 \<le> gs * gs" by simp
  from process_state_length[OF r] ng
  have "length v = 3 + 8 * min (nat mp) (length (critical_points g))
            + 7 * (nat mp - length (critical_points g)) + nat (gs * gs) + 3"
    by (simp add: GameStateProcessor_def)
  then have "int (length v) = 6 + 8 * int (min (nat mp) (length (critical_points g)))
            + 7 * int (nat mp - length (critical_points g)) + gs * gs"
    using sq by simp
  moreover have "int (min (nat mp) (length (critical_points g)))
                 + int (nat mp - length (critical_points g)) = mp"
    using mp by (simp add: min_def)
  ultimately show ?thesis
    by (simp add: compute_state_dim_formula)
qed

text \<open>
  Claim C1 (fails on the code). The claim: \<open>compute_state_dim\<close> is
  \<open>3 + max_points * 7 + grid_size * grid_size + 1 + 2\<close> (581 for 50 points and a grid
  of 15), and every encoded observation has exactly this length. The first half is
  \<open>compute_state_dim_formula\<close>. The second half fails: for the default configuration
  and the mock observation of the source, which has two critical points and a grid of
  225 cells, \<open>process_state\<close> returns a vector of 583 values, while
  \<open>compute_state_dim\<close> is 581.
\<close>

theorem process_state_mock_length:
  "map_sum id length (process_state (GameStateProcessor 50 15) mock_state) = Inr 583
   \<and> compute_state_dim (GameStateProcessor 50 15) = 581"
proof
  show "map_sum id length (process_state (GameStateProcessor 50 15) mock_state) = Inr 583"
    by code_simp
  show "compute_state_dim (GameStateProcessor 50 15) = 581"
    by (simp add: compute_state_dim_formula)
qed

text \<open>
  Claim C7 (fails on the code). The claim: encoding fails with a shape error whenever the
  produced vector's length disagrees with \<open>compute_state_dim\<close>, for instance when the
  navigation grid does not have \<open>grid_size * grid_size\<close> entries. Counterexample: with
  the default configuration, an observation without critical points whose grid has one
  cell is encoded into a vector of 357 values, and no error is raised.
\<close>

theorem process_state_short_grid_returns:
  "map_sum id length (process_state (GameStateProcessor 50 15) short_grid_state) = Inr 357
   \<and> compute_state_dim (GameStateProcessor 50 15) = 581"
proof
  show "map_sum id length (process_state (GameStateProcessor 50 15) short_grid_state) = Inr 357"
    by code_simp
  show "compute_state_dim (GameStateProcessor 50 15) = 581"
    by (simp add: compute_state_dim_formula)
qed

text \<open>
  Claim C7, amended. The encoder checks no length. Whether it returns does not depend on
  the navigation grid, and when it returns, the grid is passed through whole, whatever
  its length: the vector is a prefix that does not depend on the grid, then the grid,
  then the time remaining and the two distances.
\<close>

theorem process_state_grid_passthrough:
  assumes "process_state p g = Inr v"
  shows "\<exists>pre. \<forall>ng. process_state p (g\<lparr>navigation_grid := Some ng\<rparr>) =
           Inr (pre @ ng @ [get_or (time_remaining g) 1,
                            get_or (nearest_unclaimed_distance g) 1,
                            get_or (nearest_enemy_distance g) 1])"
proof -
  from assms obtain npos cpf where
    n: "normalized_pos (agent_position g) (get_or (map_size g) 10) = Inr npos" and
    c: "cp_loop p (critical_points g) (get_or (map_size g) 10) [0 ..< nat (max_cps p)] [] = Inr cpf"
    by (auto simp: process_state_def ebind_def Let_def split: sum.splits)
  have "\<forall>ng. process_state p (g\<lparr>navigation_grid := Some ng\<rparr>) =
           Inr ((npos @ cpf) @ ng @ [get_or (time_remaining g) 1,
                            get_or (nearest_unclaimed_distance g) 1,
                            get_or (nearest_enemy_distance g) 1])"
    using n c by (simp add: process_state_def ebind_def Let_def get_or_def)
  then show ?thesis by blast
qed

theorem process_state_grid_passthrough_witness:
  "\<exists>pre. \<forall>ng. process_state (GameStateProcessor 1 2) (short_grid_state\<lparr>navigation_grid := Some ng\<rparr>) =
           Inr (pre @ ng @ [get_or (time_remaining short_grid_state) 1,
                            get_or (nearest_unclaimed_distance short_grid_state) 1,
                            get_or (nearest_enemy_distance short_grid_state) 1])"
proof -
  have "process_state (GameStateProcessor 1 2) short_grid_state
        = Inr [1 / 2, 1 / 5, 1 / 2, 0, 0, 0, 0, 0, 0, 0, 0, 8 / 10, 5 / 10, 7 / 10]"
    by code_simp
  from process_state_grid_passthrough [OF this] show ?thesis .
qed

section \<open>Properties of the replay buffer\<close>

text \<open>One step of the pool method removes the selected position from the pool.\<close>

lemma pool_step:
  assumes d: "distinct pool" and j: "j < length pool"
  shows "distinct (butlast (pool[j := last pool]))
       \<and> set (butlast (pool[j := last pool])) = set pool - {pool ! j}
       \<and> length (butlast (pool[j := last pool])) = length pool - 1"
proof (cases pool rule: rev_cases)
  case Nil
  with j show ?thesis by simp
next
  case (snoc ys l)
  show ?thesis
  proof (cases "j < length ys")
    case True
    have e: "butlast (pool[j := last pool]) = ys[j := l]"
      using snoc True by (simp add: list_update_append1)
    have nth: "pool ! j = ys ! j" using snoc True by (simp add: nth_append)
    have l: "l \<notin> set ys" and dy: "distinct ys" using d snoc by auto
    have "distinct (ys[j := l])" using dy l by (simp add: distinct_list_update)
    moreover have "set (ys[j := l]) = insert l (set ys - {ys ! j})"
      using dy True by (rule set_update_distinct)
    moreover have "ys ! j \<in> set ys" using True by simp
    ultimately show ?thesis using e nth snoc l by auto
  next
    case False
    with j snoc have jj: "j = length ys" by simp
    have e: "butlast (pool[j := last pool]) = ys" using snoc jj by simp
    have "pool ! j = l" using snoc jj by simp
    then show ?thesis using e d snoc by auto
  qed
qed

lemma draw_indices_props:
  "distinct pool \<Longrightarrow> k \<le> length pool \<Longrightarrow>
   length (draw_indices pool k rs) = k \<and> distinct (draw_indices pool k rs)
   \<and> set (draw_indices pool k rs) \<subseteq> set pool"
proof (induction k arbitrary: pool rs)
  case 0
  then show ?case by simp
next
  case (Suc k)
  define j where "j = rs 0 mod length pool"
  define pool' where "pool' = butlast (pool[j := last pool])"
  from Suc.prems have pos: "0 < length pool" by (cases pool) simp_all
  then have j: "j < length pool" by (simp add: j_def)
  from pool_step[OF Suc.prems(1) j]
  have p: "distinct pool'" "set pool' = set pool - {pool ! j}" "length pool' = length pool - 1"
    by (simp_all add: pool'_def)
  from Suc.prems p have "k \<le> length pool'" by simp
  from Suc.IH[OF p(1) this, of "\<lambda>i. rs (Suc i)"]
  have ih: "length (draw_indices pool' k (\<lambda>i. rs (Suc i))) = k"
    "distinct (draw_indices pool' k (\<lambda>i. rs (Suc i)))"
    "set (draw_indices pool' k (\<lambda>i. rs (Suc i))) \<subseteq> set pool'" by simp_all
  have eq: "draw_indices pool (Suc k) rs = pool ! j # draw_indices pool' k (\<lambda>i. rs (Suc i))"
    by (simp add: Let_def j_def pool'_def)
  show ?case using ih p j unfolding eq by auto
qed

text \<open>The model of the random source excludes no outcome: every arrangement of distinct
  positions of the pool is drawn by some stream.\<close>

lemma draw_indices_complete:
  "distinct pool \<Longrightarrow> distinct idxs \<Longrightarrow> set idxs \<subseteq> set pool \<Longrightarrow>
   \<exists>rs. draw_indices pool (length idxs) rs = idxs"
proof (induction idxs arbitrary: pool)
  case Nil
  then show ?case by simp
next
  case (Cons i rest)
  from Cons.prems have "i \<in> set pool" by simp
  then obtain j where j: "j < length pool" "pool ! j = i" by (auto simp: in_set_conv_nth)
  define pool' where "pool' = butlast (pool[j := last pool])"
  from pool_step[OF Cons.prems(1) j(1)]
  have p: "distinct pool'" "set pool' = set pool - {pool ! j}"
    by (simp_all add: pool'_def)
  from Cons.prems j p have "set rest \<subseteq> set pool'" "distinct rest" by auto
  from Cons.IH[OF p(1) this(2) this(1)] obtain rs' where
    rs': "draw_indices pool' (length rest) rs' = rest" by blast
  define rs where "rs = (\<lambda>n. case n of 0 \<Rightarrow> j | Suc m \<Rightarrow> rs' m)"
  have "rs 0 mod length pool = j" using j by (simp add: rs_def)
  moreover have "(\<lambda>i. rs (Suc i)) = rs'" by (simp add: rs_def)
  ultimately have "draw_indices pool (length (i # rest)) rs = i # rest"
    using rs' j by (simp add: Let_def pool'_def)
  then show ?case by blast
qed

text \<open>The arrangement that is drawn determines the outcomes of the \<^verbatim>\<open>randbelow\<close> calls
  and is determined by them: two streams draw the same arrangement exactly when they
  agree on the outcome \<open>rs i mod (n - i)\<close> of every step \<open>i\<close>.\<close>

lemma all_less_Suc_shift: "(\<forall>i < Suc k. P i) = (P 0 \<and> (\<forall>i < k. P (Suc i)))"
  by (auto simp: less_Suc_eq_0_disj)

lemma draw_indices_inj:
  "distinct pool \<Longrightarrow> k \<le> length pool \<Longrightarrow>
   (draw_indices pool k rs' = draw_indices pool k rs)
   = (\<forall>i < k. rs' i mod (length pool - i) = rs i mod (length pool - i))"
proof (induction k arbitrary: pool rs rs')
  case 0
  then show ?case by simp
next
  case (Suc k)
  define j where "j = rs 0 mod length pool"
  define j' where "j' = rs' 0 mod length pool"
  define pool' where "pool' = butlast (pool[j := last pool])"
  from Suc.prems have pos: "0 < length pool" by (cases pool) simp_all
  then have j: "j < length pool" "j' < length pool" by (simp_all add: j_def j'_def)
  from pool_step[OF Suc.prems(1) j(1)]
  have p: "distinct pool'" "length pool' = length pool - 1" by (simp_all add: pool'_def)
  from Suc.prems p have k: "k \<le> length pool'" by simp
  have len: "\<And>i. length pool' - i = length pool - Suc i" by (simp add: p(2))
  have eq: "draw_indices pool (Suc k) rs = pool ! j # draw_indices pool' k (\<lambda>i. rs (Suc i))"
    by (simp add: Let_def j_def pool'_def)
  have eq': "draw_indices pool (Suc k) rs'
      = pool ! j' # draw_indices (butlast (pool[j' := last pool])) k (\<lambda>i. rs' (Suc i))"
    by (simp add: Let_def j'_def)
  have head: "(pool ! j' = pool ! j) = (j' = j)"
    using Suc.prems(1) j by (simp add: nth_eq_iff_index_eq)
  have "(draw_indices pool (Suc k) rs' = draw_indices pool (Suc k) rs)
      = (j' = j \<and> draw_indices pool' k (\<lambda>i. rs' (Suc i)) = draw_indices pool' k (\<lambda>i. rs (Suc i)))"
    unfolding eq eq' using head by (auto simp: pool'_def)
  also have "\<dots> = (j' = j \<and> (\<forall>i < k. rs' (Suc i) mod (length pool - Suc i)
                                     = rs (Suc i) mod (length pool - Suc i)))"
    using Suc.IH[OF p(1) k, of "\<lambda>i. rs' (Suc i)" "\<lambda>i. rs (Suc i)"] by (simp add: len)
  also have "\<dots> = (\<forall>i < Suc k. rs' i mod (length pool - i) = rs i mod (length pool - i))"
    unfolding all_less_Suc_shift by (simp add: j_def j'_def)
  finally show ?case .
qed

text \<open>
  Claim C2 (fails on the code). The claim: for every batch size \<open>k\<close>, \<open>sample\<close> raises when
  fewer than \<open>k\<close> transitions are stored, and otherwise returns exactly \<open>k\<close> transitions.
  Counterexample: with two transitions stored and \<open>k = 0\<close> the stored count is not less
  than \<open>k\<close>, and \<open>sample\<close> raises \<open>ValueError\<close> instead of returning no transitions.
\<close>

theorem sample_zero_raises:
  "sample float32_exact two_transitions 0 zero_stream = Inl ValueError"
  by (simp add: sample_def random_sample_def ebind_def two_transitions_def)

text \<open>With enough transitions stored \<open>sample\<close> still raises when the state vectors of the
  batch differ in length, and when an action of the batch is outside \<^verbatim>\<open>int32\<close>.\<close>

lemma sample_ragged_raises:
  "sample float32_exact ragged_transitions 2 zero_stream = Inl ValueError"
  by code_simp

lemma sample_wide_action_raises:
  "sample float32_exact wide_action_transitions 2 zero_stream = Inl ValueError"
  by code_simp

text \<open>
  Claim C2, amended. For every batch size \<open>k \<ge> 1\<close>: \<open>sample\<close> raises (\<open>ValueError\<close>) when
  fewer than \<open>k\<close> transitions are stored. Otherwise it draws \<open>k\<close> distinct indices of the
  buffer, uniformly at random without replacement: the indices are those the pool
  selection draws from the random source; two outcomes of the random source draw the same
  arrangement exactly when they agree on the outcome of each of the \<open>k\<close> \<^verbatim>\<open>randbelow\<close>
  calls, and every arrangement of \<open>k\<close> distinct indices is drawn by some outcome, so that
  each arrangement corresponds to exactly one sequence of outcomes of the \<open>k\<close> uniform
  calls. When the state vectors of the drawn transitions have one length, the next-state
  vectors have one length and the actions lie within \<^verbatim>\<open>int32\<close>, it returns the \<open>k\<close> drawn
  transitions as five parallel tensors (the states, actions, rewards, next states and
  done flags, converted to \<^verbatim>\<open>float32\<close>, \<^verbatim>\<open>int32\<close> and booleans) in the order drawn;
  otherwise it raises \<open>ValueError\<close>.
\<close>

theorem sample_batch:
  assumes "1 \<le> k"
  shows "(int (length (buffer rb)) < k \<longrightarrow> sample f rb k rs = Inl ValueError)
       \<and> (k \<le> int (length (buffer rb)) \<longrightarrow>
            (let n = length (buffer rb);
                 idxs = draw_indices [0 ..< n] (nat k) rs;
                 (states, actions, rewards, next_states, dones)
                    = unzip5 (map (\<lambda>i. buffer rb ! i) idxs)
             in length idxs = nat k \<and> distinct idxs \<and> (\<forall>i \<in> set idxs. i < n)
              \<and> (\<forall>rs'. (draw_indices [0 ..< n] (nat k) rs' = idxs)
                        = (\<forall>i < nat k. rs' i mod (n - i) = rs i mod (n - i)))
              \<and> (\<forall>js. length js = nat k \<and> distinct js \<and> (\<forall>i \<in> set js. i < n)
                       \<longrightarrow> (\<exists>rs'. draw_indices [0 ..< n] (nat k) rs' = js))
              \<and> sample f rb k rs =
                  (if rectangular states \<and> list_all in_int32 actions \<and> rectangular next_states
                   then Inr (map (map f) states, actions, map f rewards,
                             map (map f) next_states, dones)
                   else Inl ValueError)))"
proof (intro conjI impI)
  assume "int (length (buffer rb)) < k"
  then show "sample f rb k rs = Inl ValueError"
    by (simp add: sample_def random_sample_def ebind_def Let_def)
next
  assume le: "k \<le> int (length (buffer rb))"
  define n where "n = length (buffer rb)"
  define idxs where "idxs = draw_indices [0 ..< n] (nat k) rs"
  from le assms have kn: "nat k \<le> length [0 ..< n]" by (simp add: n_def)
  from draw_indices_props[OF distinct_upt kn, of rs]
  have p: "length idxs = nat k" "distinct idxs" "set idxs \<subseteq> {0 ..< n}"
    by (simp_all add: idxs_def)
  from p(1) assms have ne: "idxs \<noteq> []" by auto
  have inj: "\<forall>rs'. (draw_indices [0 ..< n] (nat k) rs' = idxs)
                        = (\<forall>i < nat k. rs' i mod (n - i) = rs i mod (n - i))"
    using draw_indices_inj[OF distinct_upt kn, of _ rs] by (simp add: idxs_def)
  have surj: "\<forall>js. length js = nat k \<and> distinct js \<and> (\<forall>i \<in> set js. i < n)
                       \<longrightarrow> (\<exists>rs'. draw_indices [0 ..< n] (nat k) rs' = js)"
  proof (intro allI impI)
    fix js
    assume js: "length js = nat k \<and> distinct js \<and> (\<forall>i \<in> set js. i < n)"
    then have "set js \<subseteq> set [0 ..< n]" by auto
    from draw_indices_complete[OF distinct_upt _ this] js
    show "\<exists>rs'. draw_indices [0 ..< n] (nat k) rs' = js" by auto
  qed
  have smp: "sample f rb k rs =
      (if rectangular (map (\<lambda>(s, a, r, s', d). s) (map (\<lambda>i. buffer rb ! i) idxs))
          \<and> list_all in_int32 (map (\<lambda>(s, a, r, s', d). a) (map (\<lambda>i. buffer rb ! i) idxs))
          \<and> rectangular (map (\<lambda>(s, a, r, s', d). s') (map (\<lambda>i. buffer rb ! i) idxs))
       then Inr (map (map f) (map (\<lambda>(s, a, r, s', d). s) (map (\<lambda>i. buffer rb ! i) idxs)),
                 map (\<lambda>(s, a, r, s', d). a) (map (\<lambda>i. buffer rb ! i) idxs),
                 map f (map (\<lambda>(s, a, r, s', d). r) (map (\<lambda>i. buffer rb ! i) idxs)),
                 map (map f) (map (\<lambda>(s, a, r, s', d). s') (map (\<lambda>i. buffer rb ! i) idxs)),
                 map (\<lambda>(s, a, r, s', d). d) (map (\<lambda>i. buffer rb ! i) idxs))
       else Inl ValueError)"
    using le assms ne
    by (simp add: sample_def random_sample_def ebind_def Let_def idxs_def n_def unzip5_def
        tf_constant_rows_def tf_constant_int32_def tf_constant_float32_def tf_constant_bool_def)
  from p have "length idxs = nat k \<and> distinct idxs \<and> (\<forall>i \<in> set idxs. i < n)" by auto
  with inj surj smp
  show "let n = length (buffer rb);
            idxs = draw_indices [0 ..< n] (nat k) rs;
            (states, actions, rewards, next_states, dones)
               = unzip5 (map (\<lambda>i. buffer rb ! i) idxs)
        in length idxs = nat k \<and> distinct idxs \<and> (\<forall>i \<in> set idxs. i < n)
         \<and> (\<forall>rs'. (draw_indices [0 ..< n] (nat k) rs' = idxs)
                   = (\<forall>i < nat k. rs' i mod (n - i) = rs i mod (n - i)))
         \<and> (\<forall>js. length js = nat k \<and> distinct js \<and> (\<forall>i \<in> set js. i < n)
                  \<longrightarrow> (\<exists>rs'. draw_indices [0 ..< n] (nat k) rs' = js))
         \<and> sample f rb k rs =
             (if rectangular states \<and> list_all in_int32 actions \<and> rectangular next_states
              then Inr (map (map f) states, actions, map f rewards,
                        map (map f) next_states, dones)
              else Inl ValueError)"
    unfolding Let_def unzip5_def n_def[symmetric] idxs_def[symmetric] prod.case by blast
qed

theorem sample_batch_witness:
  "(1::int) \<le> 3 \<and> (1::int) \<le> 2 \<and> 2 \<le> int (length (buffer two_transitions))
   \<and> sample float32_exact two_transitions 3 zero_stream = Inl ValueError
   \<and> draw_indices [0 ..< 2] 2 zero_stream = [0, 1]
   \<and> sample float32_exact two_transitions 2 zero_stream
       = Inr ([[1], [2]], [0, 1], [1, 0], [[2], [3]], [False, True])"
proof -
  have l: "length (buffer two_transitions) = 2" by (simp add: two_transitions_def)
  have d0: "draw_indices [0 ..< 2] 2 zero_stream = [0, 1]" by code_simp
  then have d: "draw_indices [0 ..< length (buffer two_transitions)] (nat 2) zero_stream = [0, 1]"
    by (simp add: l)
  have u: "unzip5 (map (\<lambda>i. buffer two_transitions ! i) [0, 1])
       = ([[1], [2]], [0, 1], [1, 0], [[2], [3]], [False, True])"
    by (simp add: unzip5_def two_transitions_def)
  have c: "rectangular [[1::real], [2]]" "rectangular [[2::real], [3]]"
    "list_all in_int32 [0, 1]"
    by (simp_all add: rectangular_def in_int32_def)
  have a: "(1::int) \<le> 3" and b: "(1::int) \<le> 2" by simp_all
  from sample_batch [OF a, of two_transitions float32_exact zero_stream] l
  have "sample float32_exact two_transitions 3 zero_stream = Inl ValueError" by simp
  moreover from sample_batch [OF b, of two_transitions float32_exact zero_stream,
      unfolded Let_def d u prod.case] l c
  have "sample float32_exact two_transitions 2 zero_stream
       = Inr ([[1], [2]], [0, 1], [1, 0], [[2], [3]], [False, True])"
    by (simp add: float32_exact_def)
  ultimately show ?thesis using d0 l by simp
qed

section \<open>Properties of the reward\<close>

text \<open>Numbers of magnitude up to \<open>2^1023\<close> are within the range of floats.\<close>

lemma float_threshold_gt: "2 ^ 1023 < float_threshold"
  by (simp add: float_threshold_def)

lemma to_float_finite: "\<bar>x\<bar> \<le> 2 ^ 1023 \<Longrightarrow> to_float x = Finite x"
  using float_threshold_gt by (auto simp: to_float_def)

lemma to_float_not_nan: "to_float x \<noteq> NaN"
  by (simp add: to_float_def)

text \<open>A sum of squares is never negative: \<open>pow_half\<close> is applied to a number that is not
  negative or to the positive infinity.\<close>

lemma square_not_negative:
  "pow2 (fsub (Finite a) (Finite b)) = Inr sq \<Longrightarrow> (\<exists>x. sq = Finite x \<and> 0 \<le> x) \<or> sq = PosInf"
  by (cases "to_float (a + - b)") (auto simp: fsub_def to_float_not_nan split: if_splits)

lemma sum_squares_not_negative:
  "sum_squares acc zs = Inr s \<Longrightarrow> (\<exists>x. acc = Finite x \<and> 0 \<le> x) \<or> acc = PosInf \<Longrightarrow>
   (\<exists>x. s = Finite x \<and> 0 \<le> x) \<or> s = PosInf"
proof (induction acc zs rule: sum_squares.induct)
  case (1 acc)
  then show ?case by simp
next
  case (2 acc a b rest)
  from "2.prems"(1) obtain sq where sq: "pow2 (fsub (Finite a) (Finite b)) = Inr sq"
    and rest: "sum_squares (fadd acc sq) rest = Inr s"
    by (auto split: sum.splits)
  from square_not_negative[OF sq] "2.prems"(2)
  have "(\<exists>x. fadd acc sq = Finite x \<and> 0 \<le> x) \<or> fadd acc sq = PosInf"
    by (auto simp: to_float_def)
  from "2.IH"[OF sq rest this] show ?case .
qed

text \<open>The reward computation raises nothing but \<open>OverflowError\<close>.\<close>

lemma pow2_error: "pow2 x = Inl e \<Longrightarrow> e = OverflowError"
  by (cases x) (auto split: if_splits)

lemma sum_squares_error: "sum_squares acc zs = Inl e \<Longrightarrow> e = OverflowError"
  by (induction acc zs rule: sum_squares.induct) (auto split: sum.splits dest: pow2_error)

lemma distance_error: "distance p1 p2 = Inl e \<Longrightarrow> e = OverflowError"
  by (auto simp: distance_def ebind_def split: sum.splits dest: sum_squares_error)

lemma min_loop_error: "min_loop pos least tps = Inl e \<Longrightarrow> e = OverflowError"
  by (induction tps arbitrary: least) (auto split: sum.splits dest: distance_error)

lemma min_distance_error: "min_distance pos tp tps = Inl e \<Longrightarrow> e = OverflowError"
  by (auto simp: min_distance_def ebind_def split: sum.splits
      dest: distance_error min_loop_error)

lemma get_proximity_reward_error:
  "get_proximity_reward cur prev cps ty sc aid = Inl e \<Longrightarrow> e = OverflowError"
  by (auto simp: get_proximity_reward_def ebind_def Let_def
      split: sum.splits list.splits if_splits dest: min_distance_error)

lemma int_to_float_error: "int_to_float n = Inl e \<Longrightarrow> e = OverflowError"
  by (auto simp: int_to_float_def split: if_splits)

lemma np_clip_range:
  "np_clip x (- 5) 5 = NaN \<or> (\<exists>r. np_clip x (- 5) 5 = Finite r \<and> - 5 \<le> r \<and> r \<le> 5)"
  by (cases x) auto

lemma np_clip_number:
  "x \<noteq> NaN \<Longrightarrow> \<exists>r. np_clip x (- 5) 5 = Finite r \<and> - 5 \<le> r \<and> r \<le> 5"
  by (cases x) auto

lemma calculate_reward_error:
  "snd (calculate_reward env state agent_id) = Inl e \<Longrightarrow> e = OverflowError"
  by (auto simp: calculate_reward_def Let_def ebind_def
      split: sum.splits option.splits if_splits
      dest: int_to_float_error get_proximity_reward_error)

lemma calculate_reward_value:
  "snd (calculate_reward env state agent_id) = Inr v \<Longrightarrow>
   v = NaN \<or> (\<exists>r. v = Finite r \<and> - 5 \<le> r \<and> r \<le> 5)"
  using np_clip_range
  by (auto simp: calculate_reward_def Let_def split: sum.splits option.splits if_splits)

text \<open>With coordinates of magnitude at most \<open>2^500\<close> and at most three of them, every
  distance is a finite number.\<close>

lemma square_bounded:
  assumes "\<bar>a\<bar> \<le> 2 ^ 500" "\<bar>b\<bar> \<le> 2 ^ 500"
  shows "pow2 (fsub (Finite a) (Finite b)) = Inr (Finite ((a - b) * (a - b)))"
    and "(a - b) * (a - b) \<le> 2 ^ 1002" and "0 \<le> (a - b) * (a - b)"
proof -
  have d: "\<bar>a - b\<bar> \<le> 2 ^ 501" using assms by simp
  then have "\<bar>a - b\<bar> * \<bar>a - b\<bar> \<le> 2 ^ 501 * 2 ^ 501" by (intro mult_mono) simp_all
  then show sq: "(a - b) * (a - b) \<le> 2 ^ 1002" by (simp add: abs_mult_self_eq)
  show "0 \<le> (a - b) * (a - b)" by simp
  have "fsub (Finite a) (Finite b) = Finite (a - b)"
    using d to_float_finite[of "a - b"] by (simp add: fsub_def)
  moreover have "\<not> float_threshold \<le> (a - b) * (a - b)"
    using sq float_threshold_gt by simp
  ultimately show "pow2 (fsub (Finite a) (Finite b)) = Inr (Finite ((a - b) * (a - b)))"
    by simp
qed

lemma sum_squares_bounded:
  "list_all (\<lambda>(a, b). \<bar>a\<bar> \<le> 2 ^ 500 \<and> \<bar>b\<bar> \<le> 2 ^ 500) zs \<Longrightarrow> 0 \<le> s \<Longrightarrow>
   s + real (length zs) * 2 ^ 1002 \<le> 2 ^ 1004 \<Longrightarrow>
   \<exists>s'. sum_squares (Finite s) zs = Inr (Finite s') \<and> 0 \<le> s' \<and> s' \<le> 2 ^ 1004"
proof (induction zs arbitrary: s)
  case Nil
  then show ?case by simp
next
  case (Cons z zs)
  obtain a b where z: "z = (a, b)" by (cases z)
  from Cons.prems(1) z have ab: "\<bar>a\<bar> \<le> 2 ^ 500" "\<bar>b\<bar> \<le> 2 ^ 500"
    and rest: "list_all (\<lambda>(a, b). \<bar>a\<bar> \<le> 2 ^ 500 \<and> \<bar>b\<bar> \<le> 2 ^ 500) zs" by simp_all
  let ?q = "(a - b) * (a - b)"
  note sq = square_bounded[OF ab]
  have le: "(s + ?q) + real (length zs) * 2 ^ 1002 \<le> 2 ^ 1004"
    using Cons.prems(3) sq(2) by (simp add: algebra_simps)
  have "0 \<le> real (length zs) * (2::real) ^ 1002" by simp
  with le have "s + ?q \<le> 2 ^ 1004" by linarith
  with Cons.prems(2) sq(3) have "\<bar>s + ?q\<bar> \<le> 2 ^ 1023" by simp
  then have "fadd (Finite s) (Finite ?q) = Finite (s + ?q)" by (simp add: to_float_finite)
  moreover from Cons.IH[OF rest _ le] Cons.prems(2) sq(3)
  obtain s' where "sum_squares (Finite (s + ?q)) zs = Inr (Finite s')" "0 \<le> s'" "s' \<le> 2 ^ 1004"
    by auto
  ultimately show ?case using sq(1) z by simp
qed

lemma distance_bounded:
  assumes "list_all (\<lambda>x. \<bar>x\<bar> \<le> 2 ^ 500) p1" "list_all (\<lambda>x. \<bar>x\<bar> \<le> 2 ^ 500) p2"
    and "length p1 \<le> 3"
  shows "\<exists>d. distance p1 p2 = Inr (Finite d) \<and> 0 \<le> d \<and> d \<le> 2 ^ 502"
proof -
  have "list_all (\<lambda>(a, b). \<bar>a\<bar> \<le> 2 ^ 500 \<and> \<bar>b\<bar> \<le> 2 ^ 500) (zip p1 p2)"
    using assms(1,2) by (auto simp: list_all_iff dest: set_zip_leftD set_zip_rightD)
  moreover have "real (length (zip p1 p2)) \<le> 3" using assms(3) by simp
  then have "0 + real (length (zip p1 p2)) * 2 ^ 1002 \<le> (2::real) ^ 1004" by simp
  ultimately obtain s where s: "sum_squares (Finite 0) (zip p1 p2) = Inr (Finite s)"
    "0 \<le> s" "s \<le> 2 ^ 1004"
    using sum_squares_bounded[of "zip p1 p2" 0] by auto
  have "sqrt s \<le> 2 ^ 502" using s(3) by (intro real_le_lsqrt) simp_all
  with s show ?thesis by (simp add: distance_def ebind_def)
qed

lemma min_loop_bounded:
  assumes "list_all (\<lambda>x. \<bar>x\<bar> \<le> 2 ^ 500) pos" "length pos \<le> 3"
  shows "list_all (list_all (\<lambda>x. \<bar>x\<bar> \<le> 2 ^ 500)) tps \<Longrightarrow> 0 \<le> l \<Longrightarrow> l \<le> 2 ^ 502 \<Longrightarrow>
         \<exists>m. min_loop pos (Finite l) tps = Inr (Finite m) \<and> 0 \<le> m \<and> m \<le> 2 ^ 502"
proof (induction tps arbitrary: l)
  case Nil
  then show ?case by simp
next
  case (Cons tp tps)
  from Cons.prems(1) have tp: "list_all (\<lambda>x. \<bar>x\<bar> \<le> 2 ^ 500) tp"
    and rest: "list_all (list_all (\<lambda>x. \<bar>x\<bar> \<le> 2 ^ 500)) tps" by simp_all
  from distance_bounded[OF assms(1) tp assms(2)]
  obtain d where d: "distance pos tp = Inr (Finite d)" "0 \<le> d" "d \<le> 2 ^ 502" by auto
  show ?case
  proof (cases "d < l")
    case True
    with Cons.IH[OF rest d(2) d(3)] d(1) show ?thesis by simp
  next
    case False
    with Cons.IH[OF rest Cons.prems(2) Cons.prems(3)] d(1) show ?thesis by simp
  qed
qed

lemma min_distance_bounded:
  assumes "list_all (\<lambda>x. \<bar>x\<bar> \<le> 2 ^ 500) pos" "length pos \<le> 3"
    and "list_all (list_all (\<lambda>x. \<bar>x\<bar> \<le> 2 ^ 500)) (tp # tps)"
  shows "\<exists>m. min_distance pos tp tps = Inr (Finite m) \<and> 0 \<le> m \<and> m \<le> 2 ^ 502"
proof -
  from assms(3) have tp: "list_all (\<lambda>x. \<bar>x\<bar> \<le> 2 ^ 500) tp"
    and rest: "list_all (list_all (\<lambda>x. \<bar>x\<bar> \<le> 2 ^ 500)) tps" by simp_all
  from distance_bounded[OF assms(1) tp assms(2)]
  obtain d where d: "distance pos tp = Inr (Finite d)" "0 \<le> d" "d \<le> 2 ^ 502" by auto
  from min_loop_bounded[OF assms(1,2) rest d(2,3)] d(1)
  show ?thesis by (simp add: min_distance_def ebind_def)
qed

lemma get_proximity_reward_bounded:
  assumes cur: "list_all (\<lambda>x. \<bar>x\<bar> \<le> 2 ^ 500) cur" "length cur \<le> 3"
    and prev: "list_all (\<lambda>x. \<bar>x\<bar> \<le> 2 ^ 500) prev" "length prev \<le> 3"
    and cps: "list_all (\<lambda>cp. list_all (\<lambda>x. \<bar>x\<bar> \<le> 2 ^ 500) (position cp)) cps"
    and sc: "0 \<le> sc" "sc \<le> 1"
  shows "\<exists>r. get_proximity_reward cur prev cps ty sc aid = Inr (Finite r) \<and> \<bar>r\<bar> \<le> 2 ^ 502"
proof (cases "map position (filter (is_target ty aid) cps)")
  case Nil
  then show ?thesis by (simp add: get_proximity_reward_def)
next
  case (Cons tp tps)
  have "list_all (list_all (\<lambda>x. \<bar>x\<bar> \<le> 2 ^ 500)) (map position (filter (is_target ty aid) cps))"
    using cps by (auto simp: list_all_iff)
  then have t: "list_all (list_all (\<lambda>x. \<bar>x\<bar> \<le> 2 ^ 500)) (tp # tps)" by (simp add: Cons)
  from min_distance_bounded[OF prev t]
  obtain mp where mp: "min_distance prev tp tps = Inr (Finite mp)" "0 \<le> mp" "mp \<le> 2 ^ 502"
    by auto
  from min_distance_bounded[OF cur t]
  obtain mc where mc: "min_distance cur tp tps = Inr (Finite mc)" "0 \<le> mc" "mc \<le> 2 ^ 502"
    by auto
  have dc: "\<bar>mp - mc\<bar> \<le> 2 ^ 502" using mp mc by simp
  then have s: "fsub (Finite mp) (Finite mc) = Finite (mp - mc)"
    using to_float_finite[of "mp - mc"] by (simp add: fsub_def)
  have "\<bar>sc * (mp - mc)\<bar> \<le> 1 * \<bar>mp - mc\<bar>"
    unfolding abs_mult using sc by (intro mult_right_mono) simp_all
  with dc have r: "\<bar>sc * (mp - mc)\<bar> \<le> 2 ^ 502" by simp
  then have "fmul (Finite sc) (Finite (mp - mc)) = Finite (sc * (mp - mc))"
    using to_float_finite[of "sc * (mp - mc)"] by simp
  moreover from Cons have "cps \<noteq> []" by auto
  ultimately show ?thesis
    using Cons mp(1) mc(1) s r by (simp add: get_proximity_reward_def ebind_def Let_def)
qed

lemma fsub_number: "x \<noteq> NaN \<Longrightarrow> fsub x (Finite c) \<noteq> NaN"
  by (cases x) (simp_all add: fsub_def to_float_not_nan)

lemma point_reward_number:
  assumes "\<bar>real_of_int n\<bar> \<le> 2 ^ 1023"
  shows "(if n > 0 then ebind (int_to_float n) (\<lambda>c. Inr (fadd (Finite 0) (fmul (Finite 1) c)))
          else if n < 0 then ebind (int_to_float \<bar>n\<bar>) (\<lambda>c.
                 Inr (fadd (Finite 0) (fmul (Finite (- 1)) c)))
          else Inr (Finite 0)) = Inr (Finite (real_of_int n))"
proof -
  have f: "to_float (real_of_int n) = Finite (real_of_int n)"
    using assms by (rule to_float_finite)
  have g: "to_float (- real_of_int n) = Finite (- real_of_int n)"
    using assms by (intro to_float_finite) simp
  have "\<not> float_threshold \<le> \<bar>real_of_int n\<bar>" using assms float_threshold_gt by simp
  then show ?thesis using f g by (auto simp: int_to_float_def ebind_def)
qed

text \<open>The reward of observations of bounded magnitude is a number within \<open>[-5, 5]\<close>.\<close>

lemma calculate_reward_bounded:
  assumes cur: "list_all (\<lambda>x. \<bar>x\<bar> \<le> 2 ^ 500) (agent_position state)"
      "length (agent_position state) \<le> 3"
    and prev: "\<And>p. previous_position env = Some p \<Longrightarrow>
                 list_all (\<lambda>x. \<bar>x\<bar> \<le> 2 ^ 500) p \<and> length p \<le> 3"
    and cps: "list_all (\<lambda>cp. list_all (\<lambda>x. \<bar>x\<bar> \<le> 2 ^ 500) (position cp)) (critical_points state)"
    and pc: "\<bar>real_of_int (get_or (get_or (agent_owned_points state) (\<lambda>k. None) agent_id) 0
               - previous_owned_points env)\<bar> \<le> 2 ^ 1023"
  shows "\<exists>r. snd (calculate_reward env state agent_id) = Inr (Finite r) \<and> - 5 \<le> r \<and> r \<le> 5"
proof -
  let ?v = "real_of_int (get_or (get_or (agent_owned_points state) (\<lambda>k. None) agent_id) 0
               - previous_owned_points env)"
  note r1 = point_reward_number[OF pc]
  show ?thesis
  proof (cases "previous_position env")
    case None
    have "fsub (Finite ?v) (Finite (1 / 100)) \<noteq> NaN" by (rule fsub_number) simp
    from np_clip_number[OF this] None r1 show ?thesis
      by (simp add: calculate_reward_def Let_def)
  next
    case (Some p)
    from prev[OF Some] have p: "list_all (\<lambda>x. \<bar>x\<bar> \<le> 2 ^ 500) p" "length p \<le> 3" by simp_all
    from get_proximity_reward_bounded[OF cur p cps, of "1 / 10" "''unclaimed''" None]
    obtain u where u: "get_proximity_reward (agent_position state) p (critical_points state)
        ''unclaimed'' (1 / 10) None = Inr (Finite u)" "\<bar>u\<bar> \<le> 2 ^ 502" by auto
    from get_proximity_reward_bounded[OF cur p cps, of "2 / 10" "''enemy''" "Some agent_id"]
    obtain en where en: "get_proximity_reward (agent_position state) p (critical_points state)
        ''enemy'' (2 / 10) (Some agent_id) = Inr (Finite en)" "\<bar>en\<bar> \<le> 2 ^ 502" by auto
    have "\<bar>u + en\<bar> \<le> 2 ^ 1023" using u(2) en(2) by simp
    then have "fadd (Finite u) (Finite en) = Finite (u + en)" by (simp add: to_float_finite)
    then have "fadd (Finite ?v) (fadd (Finite u) (Finite en)) \<noteq> NaN"
      by (simp add: to_float_not_nan)
    then have "fsub (fadd (Finite ?v) (fadd (Finite u) (Finite en))) (Finite (1 / 100)) \<noteq> NaN"
      by (rule fsub_number)
    from np_clip_number[OF this] Some r1 u(1) en(1) show ?thesis
      by (simp add: calculate_reward_def Let_def ebind_def)
  qed
qed

text \<open>The reward of an agent that has not moved since the previous call, or at the first
  call, on an observation of bounded magnitude: the clipped difference between its count
  and the count stored by the previous call, whichever agent that call was for, minus the
  time penalty.\<close>

lemma get_proximity_reward_same:
  assumes "list_all (\<lambda>x. \<bar>x\<bar> \<le> 2 ^ 500) p" "length p \<le> 3"
    and "list_all (\<lambda>cp. list_all (\<lambda>x. \<bar>x\<bar> \<le> 2 ^ 500) (position cp)) cps"
  shows "get_proximity_reward p p cps ty sc aid = Inr (Finite 0)"
proof (cases "map position (filter (is_target ty aid) cps)")
  case Nil
  then show ?thesis by (simp add: get_proximity_reward_def)
next
  case (Cons tp tps)
  have "list_all (list_all (\<lambda>x. \<bar>x\<bar> \<le> 2 ^ 500)) (map position (filter (is_target ty aid) cps))"
    using assms(3) by (auto simp: list_all_iff)
  then have t: "list_all (list_all (\<lambda>x. \<bar>x\<bar> \<le> 2 ^ 500)) (tp # tps)" by (simp add: Cons)
  from min_distance_bounded[OF assms(1,2) t]
  obtain m where m: "min_distance p tp tps = Inr (Finite m)" by auto
  have "fsub (Finite m) (Finite m) = Finite 0" by (simp add: fsub_def to_float_finite)
  moreover from Cons have "cps \<noteq> []" by auto
  ultimately show ?thesis
    using Cons m by (simp add: get_proximity_reward_def ebind_def Let_def to_float_finite)
qed

lemma calculate_reward_standing:
  assumes "previous_position env = None \<or> previous_position env = Some (agent_position state)"
    and cur: "list_all (\<lambda>x. \<bar>x\<bar> \<le> 2 ^ 500) (agent_position state)"
      "length (agent_position state) \<le> 3"
    and cps: "list_all (\<lambda>cp. list_all (\<lambda>x. \<bar>x\<bar> \<le> 2 ^ 500) (position cp)) (critical_points state)"
    and pc: "\<bar>real_of_int (get_or (get_or (agent_owned_points state) (\<lambda>k. None) agent_id) 0
               - previous_owned_points env)\<bar> \<le> 2 ^ 1000"
  shows "calculate_reward env state agent_id =
     (env\<lparr>previous_owned_points := get_or (get_or (agent_owned_points state) (\<lambda>k. None) agent_id) 0,
          previous_position := Some (agent_position state)\<rparr>,
      Inr (Finite (min (max (real_of_int (get_or (get_or (agent_owned_points state) (\<lambda>k. None) agent_id) 0
                         - previous_owned_points env) - 1 / 100) (- 5)) 5)))"
proof -
  let ?v = "real_of_int (get_or (get_or (agent_owned_points state) (\<lambda>k. None) agent_id) 0
               - previous_owned_points env)"
  have "\<bar>?v\<bar> \<le> 2 ^ 1023" using pc by simp
  note r1 = point_reward_number[OF this]
  have "\<bar>?v - 1 / 100\<bar> \<le> 2 ^ 1023" using pc by simp
  from to_float_finite[OF this]
  have s: "fsub (Finite ?v) (Finite (1 / 100)) = Finite (?v - 1 / 100)" by (simp add: fsub_def)
  have z: "fadd (Finite ?v) (Finite 0) = Finite ?v"
    using to_float_finite[of ?v] pc by simp
  show ?thesis
  proof (cases "previous_position env")
    case None
    with r1 s show ?thesis by (simp add: calculate_reward_def Let_def)
  next
    case (Some p)
    with assms(1) have "p = agent_position state" by simp
    with Some r1 s z get_proximity_reward_same[OF cur cps] show ?thesis
      by (simp add: calculate_reward_def Let_def ebind_def to_float_finite)
  qed
qed

text \<open>The distance between the two ends of the range of floats is infinite.\<close>

lemma fsub_finite: "\<bar>x - y\<bar> \<le> 2 ^ 1023 \<Longrightarrow> fsub (Finite x) (Finite y) = Finite (x - y)"
  by (simp add: fsub_def to_float_finite)

lemma float_threshold_pos: "\<not> float_threshold \<le> 0"
  using float_threshold_gt by (simp add: not_le less_trans[OF _ float_threshold_gt])

lemma fsub_nan: "fsub NaN y = NaN"
  by (simp add: fsub_def)

lemma far_sub: "fsub (Finite float_far) (Finite (- float_far)) = PosInf"
  by (simp add: fsub_def to_float_def float_threshold_def float_far_def)

lemma far_distance:
  "distance [float_far, 1, 0] [- float_far, 1, 0] = Inr PosInf"
  by (simp add: distance_def ebind_def far_sub fsub_finite float_threshold_pos)

lemma far_proximity:
  "get_proximity_reward [float_far, 1, 0] [float_far, 1, 0]
     [\<lparr>position = [- float_far, 1, 0], color = None, available = True\<rparr>] ''unclaimed'' sc None
   = Inr NaN"
  "get_proximity_reward [float_far, 1, 0] [float_far, 1, 0]
     [\<lparr>position = [- float_far, 1, 0], color = None, available = True\<rparr>] ''enemy'' sc (Some 0)
   = Inr (Finite 0)"
  by (simp_all add: get_proximity_reward_def is_target_def min_distance_def far_distance
      ebind_def fsub_def)

text \<open>
  Claim C6 (fails on the code). The claim: whatever the magnitudes of positions, counts
  and distances, the reward lies within \<open>[-5, 5]\<close>. Counterexample: an observation whose
  coordinates are finite floats, the agent at \<open>2^1023\<close> and an unclaimed critical point at
  \<open>-2^1023\<close>, rewarded twice. At the second call the difference of the coordinates
  overflows to infinity, both least distances are infinite, their difference is NaN, and
  \<^verbatim>\<open>np.clip\<close> returns NaN, which is not within \<open>[-5, 5]\<close>.
\<close>

theorem reward_far_nan:
  "reward_calls (GameEnvironment 3000) [(far_state, 0), (far_state, 0)]
   = [Inr (Finite (- 1 / 100)), Inr NaN]"
  by (simp add: calculate_reward_def Let_def GameEnvironment_def far_state_def mock_state_def
      get_or_def far_proximity ebind_def fsub_finite fsub_nan)

text \<open>A coordinate of magnitude \<open>2^600\<close> makes the computation raise: its square is out of
  the range of floats.\<close>

lemma distance_overflow:
  assumes "float_threshold \<le> x * x" "\<bar>x\<bar> \<le> 2 ^ 1023"
  shows "distance (x # p) (0 # q) = Inl OverflowError"
  using assms by (simp add: distance_def ebind_def fsub_finite)

lemma reward_overflow:
  "snd (calculate_reward ((GameEnvironment 3000)\<lparr>previous_position := Some [2 ^ 600, 1, 0]\<rparr>)
         (mock_state\<lparr>critical_points :=
            [\<lparr>position = [0, 1, 0], color = None, available = True\<rparr>]\<rparr>) 0)
   = Inl OverflowError"
  by (simp add: calculate_reward_def Let_def GameEnvironment_def mock_state_def get_or_def
      get_proximity_reward_def is_target_def min_distance_def distance_overflow ebind_def
      float_threshold_def)

text \<open>
  Claim C6, amended. For every environment, observation and agent id the reward
  computation raises \<open>OverflowError\<close>, returns NaN, or returns a number within \<open>[-5, 5]\<close>.
  It returns a number within \<open>[-5, 5]\<close> whenever the coordinates of the agent's position,
  of its previous position and of the critical points have magnitude at most \<open>2^500\<close>,
  the two positions of the agent have at most three coordinates, and the change of the
  owned-point count has magnitude at most \<open>2^1023\<close>.
\<close>

theorem calculate_reward_clipped:
  "(snd (calculate_reward env state agent_id) = Inl OverflowError
    \<or> snd (calculate_reward env state agent_id) = Inr NaN
    \<or> (\<exists>r. snd (calculate_reward env state agent_id) = Inr (Finite r) \<and> - 5 \<le> r \<and> r \<le> 5))
   \<and> (list_all (\<lambda>x. \<bar>x\<bar> \<le> 2 ^ 500) (agent_position state)
      \<and> length (agent_position state) \<le> 3
      \<and> (case previous_position env of None \<Rightarrow> True
          | Some p \<Rightarrow> list_all (\<lambda>x. \<bar>x\<bar> \<le> 2 ^ 500) p \<and> length p \<le> 3)
      \<and> list_all (\<lambda>cp. list_all (\<lambda>x. \<bar>x\<bar> \<le> 2 ^ 500) (position cp)) (critical_points state)
      \<and> \<bar>real_of_int (get_or (get_or (agent_owned_points state) (\<lambda>k. None) agent_id) 0
                        - previous_owned_points env)\<bar> \<le> 2 ^ 1023
      \<longrightarrow> (\<exists>r. snd (calculate_reward env state agent_id) = Inr (Finite r)
                \<and> - 5 \<le> r \<and> r \<le> 5))"
proof (intro conjI impI)
  show "snd (calculate_reward env state agent_id) = Inl OverflowError
    \<or> snd (calculate_reward env state agent_id) = Inr NaN
    \<or> (\<exists>r. snd (calculate_reward env state agent_id) = Inr (Finite r) \<and> - 5 \<le> r \<and> r \<le> 5)"
  proof (cases "snd (calculate_reward env state agent_id)")
    case (Inl e)
    with calculate_reward_error[OF Inl] show ?thesis by simp
  next
    case (Inr v)
    with calculate_reward_value[OF Inr] show ?thesis by auto
  qed
next
  assume h: "list_all (\<lambda>x. \<bar>x\<bar> \<le> 2 ^ 500) (agent_position state)
      \<and> length (agent_position state) \<le> 3
      \<and> (case previous_position env of None \<Rightarrow> True
          | Some p \<Rightarrow> list_all (\<lambda>x. \<bar>x\<bar> \<le> 2 ^ 500) p \<and> length p \<le> 3)
      \<and> list_all (\<lambda>cp. list_all (\<lambda>x. \<bar>x\<bar> \<le> 2 ^ 500) (position cp)) (critical_points state)
      \<and> \<bar>real_of_int (get_or (get_or (agent_owned_points state) (\<lambda>k. None) agent_id) 0
                        - previous_owned_points env)\<bar> \<le> 2 ^ 1023"
  then have prev: "\<And>p. previous_position env = Some p \<Longrightarrow>
      list_all (\<lambda>x. \<bar>x\<bar> \<le> 2 ^ 500) p \<and> length p \<le> 3" by simp
  from h show "\<exists>r. snd (calculate_reward env state agent_id) = Inr (Finite r)
                \<and> - 5 \<le> r \<and> r \<le> 5"
    by (intro calculate_reward_bounded prev) simp_all
qed

theorem calculate_reward_clipped_witness:
  "\<exists>r. snd (calculate_reward ((GameEnvironment 3000)\<lparr>previous_position := Some [1, 1, 0]\<rparr>)
             mock_state 1) = Inr (Finite r) \<and> - 5 \<le> r \<and> r \<le> 5"
  using calculate_reward_clipped
    [of "(GameEnvironment 3000)\<lparr>previous_position := Some [1, 1, 0]\<rparr>" mock_state 1]
  by (simp add: GameEnvironment_def mock_state_def get_or_def)

lemma mock_owned:
  "get_or (get_or (agent_owned_points mock_state) (\<lambda>k. None) 0) 0 = 0"
  "get_or (get_or (agent_owned_points mock_state) (\<lambda>k. None) 1) 0 = 1"
  "get_or (get_or (agent_owned_points mock_state) (\<lambda>k. None) 2) 0 = 0"
  by (simp_all add: mock_state_def get_or_def)

lemma calculate_reward_mock:
  assumes "previous_position env = None \<or> previous_position env = Some [0, 1, 0]"
    and "\<bar>previous_owned_points env\<bar> \<le> 1"
  shows "calculate_reward env mock_state agent_id =
     (env\<lparr>previous_owned_points := get_or (get_or (agent_owned_points mock_state) (\<lambda>k. None) agent_id) 0,
          previous_position := Some [0, 1, 0]\<rparr>,
      Inr (Finite (real_of_int (get_or (get_or (agent_owned_points mock_state) (\<lambda>k. None) agent_id) 0
                         - previous_owned_points env) - 1 / 100)))"
proof -
  let ?own = "get_or (get_or (agent_owned_points mock_state) (\<lambda>k. None) agent_id) 0"
  have p: "agent_position mock_state = [0, 1, 0]" by (simp add: mock_state_def)
  have own: "0 \<le> ?own \<and> ?own \<le> 1" by (simp add: mock_state_def get_or_def)
  with assms(2) have b: "\<bar>?own - previous_owned_points env\<bar> \<le> 2" by linarith
  then have "\<bar>real_of_int (?own - previous_owned_points env)\<bar> \<le> 2"
    by (metis of_int_abs of_int_le_iff of_int_numeral)
  then have r: "\<bar>real_of_int (?own - previous_owned_points env)\<bar> \<le> 2 ^ 1000"
    "- 5 \<le> real_of_int (?own - previous_owned_points env) - 1 / 100"
    "real_of_int (?own - previous_owned_points env) - 1 / 100 \<le> 5" by simp_all
  have "calculate_reward env mock_state agent_id =
     (env\<lparr>previous_owned_points := ?own, previous_position := Some (agent_position mock_state)\<rparr>,
      Inr (Finite (min (max (real_of_int (?own - previous_owned_points env) - 1 / 100) (- 5)) 5)))"
    using assms(1) r(1) by (intro calculate_reward_standing) (simp_all add: mock_state_def)
  with r(2,3) show ?thesis by (simp add: p)
qed

text \<open>
  Claim C3 (fails on the code). The claim: the point-delta term of an agent's reward is
  measured against that agent's own previous observation, independently of the reward
  calls made for other agents in between. The environment keeps one
  \<open>previous_owned_points\<close> for all agents. In the source's own episode loop, where the
  agents 0, 1 and 2 are rewarded in turn on the mock observation (agent 1 owns one
  point, the others none, nobody moves and nothing changes), agent 1 receives
  \<open>+1 - 0.01\<close> at every turn and agent 2 receives \<open>-1 - 0.01\<close>, although neither gains
  or loses a point between its own observations.
\<close>

theorem reward_calls_mock:
  "reward_calls (GameEnvironment 3000)
     [(mock_state, 0), (mock_state, 1), (mock_state, 2), (mock_state, 0), (mock_state, 1)]
   = [Inr (Finite (- 1 / 100)), Inr (Finite (99 / 100)), Inr (Finite (- 101 / 100)),
      Inr (Finite (- 1 / 100)), Inr (Finite (99 / 100))]"
  by (simp add: calculate_reward_mock mock_owned GameEnvironment_def)

text \<open>The second implementation, \<open>bridge_calculate_reward\<close>, does what the claim says: an
  agent's reward does not depend on a call made for another agent in between, and an
  agent whose observation did not change since its own previous call gets the time
  penalty alone (on the mock observation, for an agent rewarded for the first time).\<close>

lemma bridge_get_proximity_reward_same:
  assumes "list_all (\<lambda>x. \<bar>x\<bar> \<le> 2 ^ 500) p" "length p \<le> 3"
    and "list_all (\<lambda>cp. list_all (\<lambda>x. \<bar>x\<bar> \<le> 2 ^ 500) (position cp)) cps"
  shows "bridge_get_proximity_reward p p cps ty sc aid = Inr (Finite 0)"
proof (cases "map position (filter (bridge_is_target ty aid) cps)")
  case Nil
  then show ?thesis by (simp add: bridge_get_proximity_reward_def)
next
  case (Cons tp tps)
  have "list_all (list_all (\<lambda>x. \<bar>x\<bar> \<le> 2 ^ 500))
          (map position (filter (bridge_is_target ty aid) cps))"
    using assms(3) by (auto simp: list_all_iff)
  then have t: "list_all (list_all (\<lambda>x. \<bar>x\<bar> \<le> 2 ^ 500)) (tp # tps)" by (simp add: Cons)
  from min_distance_bounded[OF assms(1,2) t]
  obtain m where m: "min_distance p tp tps = Inr (Finite m)" by auto
  have "fsub (Finite m) (Finite m) = Finite 0" by (simp add: fsub_def to_float_finite)
  moreover from Cons have "cps \<noteq> []" by auto
  ultimately show ?thesis
    using Cons m by (simp add: bridge_get_proximity_reward_def ebind_def Let_def to_float_finite)
qed

lemma bridge_frame:
  "a \<noteq> b \<Longrightarrow> previous_states (fst (bridge_calculate_reward env state b)) a = previous_states env a"
  by (simp add: bridge_calculate_reward_def Let_def case_prod_beta split: sum.splits)

lemma bridge_reward_depends:
  "previous_states env a = previous_states env' a \<Longrightarrow>
   snd (bridge_calculate_reward env state a) = snd (bridge_calculate_reward env' state a)"
  by (simp add: bridge_calculate_reward_def Let_def case_prod_beta split: sum.splits)

lemma bridge_reward_other_agent:
  assumes "a \<noteq> b"
  shows "snd (bridge_calculate_reward (fst (bridge_calculate_reward env state' b)) state a)
       = snd (bridge_calculate_reward env state a)"
  by (rule bridge_reward_depends) (simp add: bridge_frame assms)

lemma bridge_calculate_reward_mock:
  assumes "(case previous_states env a of None \<Rightarrow> (0, [0, 1, 0]) | Some p \<Rightarrow> p) = (n, [0, 1, 0])"
    and "\<bar>n\<bar> \<le> 1"
  shows "bridge_calculate_reward env mock_state a =
     (env\<lparr>previous_states := (previous_states env)
            (a \<mapsto> (get_or (get_or (agent_owned_points mock_state) (\<lambda>k. None) a) 0, [0, 1, 0]))\<rparr>,
      Inr (Finite (real_of_int (get_or (get_or (agent_owned_points mock_state) (\<lambda>k. None) a) 0 - n)
                   - 1 / 100)))"
proof -
  let ?own = "get_or (get_or (agent_owned_points mock_state) (\<lambda>k. None) a) 0"
  have p: "agent_position mock_state = [0, 1, 0]" by (simp add: mock_state_def)
  have own: "0 \<le> ?own \<and> ?own \<le> 1" by (simp add: mock_state_def get_or_def)
  with assms(2) have b: "\<bar>?own - n\<bar> \<le> 2" by linarith
  then have v: "\<bar>real_of_int (?own - n)\<bar> \<le> 2"
    by (metis of_int_abs of_int_le_iff of_int_numeral)
  then have r1: "\<bar>real_of_int (?own - n)\<bar> \<le> 2 ^ 1023" by simp
  have r: "- 5 \<le> real_of_int (?own - n) - 1 / 100" "real_of_int (?own - n) - 1 / 100 \<le> 5"
    using v by simp_all
  have "\<bar>real_of_int (?own - n) - 1 / 100\<bar> \<le> 2 ^ 1023" using v by simp
  from to_float_finite[OF this]
  have s: "fsub (Finite (real_of_int (?own - n))) (Finite (1 / 100))
         = Finite (real_of_int (?own - n) - 1 / 100)" by (simp add: fsub_def)
  have z: "fadd (Finite (real_of_int (?own - n))) (Finite 0) = Finite (real_of_int (?own - n))"
    using to_float_finite[OF r1] by simp
  have g: "\<And>ty sc aid. bridge_get_proximity_reward [0, 1, 0] [0, 1, 0]
             (critical_points mock_state) ty sc aid = Inr (Finite 0)"
    by (intro bridge_get_proximity_reward_same) (simp_all add: mock_state_def)
  show ?thesis
    using assms(1) point_reward_number[OF r1] s z r
    by (simp add: bridge_calculate_reward_def Let_def ebind_def p g to_float_finite)
qed

lemma bridge_reward_unchanged:
  assumes "previous_states env a = None"
  shows "snd (bridge_calculate_reward (fst (bridge_calculate_reward env mock_state a)) mock_state a)
       = Inr (Finite (- 1 / 100))"
proof -
  let ?own = "get_or (get_or (agent_owned_points mock_state) (\<lambda>k. None) a) 0"
  have own: "\<bar>?own\<bar> \<le> 1" by (simp add: mock_state_def get_or_def)
  have first: "bridge_calculate_reward env mock_state a =
     (env\<lparr>previous_states := (previous_states env)(a \<mapsto> (?own, [0, 1, 0]))\<rparr>,
      Inr (Finite (real_of_int (?own - 0) - 1 / 100)))"
    using assms by (intro bridge_calculate_reward_mock) simp_all
  have "snd (bridge_calculate_reward
               (env\<lparr>previous_states := (previous_states env)(a \<mapsto> (?own, [0, 1, 0]))\<rparr>)
               mock_state a) = Inr (Finite (real_of_int (?own - ?own) - 1 / 100))"
    using own by (subst bridge_calculate_reward_mock[where n = ?own]) simp_all
  then show ?thesis by (simp add: first)
qed

section \<open>Properties of the agent\<close>

text \<open>A training step leaves \<open>epsilon\<close> as it is (warm-up, or an exception before the
  update) or sets it to the decayed value, cut off at the floor.\<close>

lemma train_step_epsilon_cases:
  "epsilon (fst (train_step f learn rs qi ti m a)) = epsilon a
   \<or> epsilon (fst (train_step f learn rs qi ti m a)) = max (epsilon_end a) (epsilon a * epsilon_decay a)"
  by (auto simp: train_step_def Let_def update_target_network_def ebind_def
      split: sum.splits prod.splits if_splits)

lemma train_step_config:
  "epsilon_end (fst (train_step f learn rs qi ti m a)) = epsilon_end a
   \<and> epsilon_decay (fst (train_step f learn rs qi ti m a)) = epsilon_decay a"
  by (auto simp: train_step_def Let_def update_target_network_def ebind_def
      split: sum.splits prod.splits if_splits)

lemma decay_step_bounds:
  fixes e :: real
  assumes "0 \<le> fl" "fl \<le> e" "d \<le> 1"
  shows "max fl (e * d) \<le> e" "fl \<le> max fl (e * d)"
proof -
  from assms have "0 \<le> e" by simp
  with assms(3) have "e * d \<le> e * 1" by (intro mult_left_mono) simp_all
  with assms(2) show "max fl (e * d) \<le> e" by simp
  show "fl \<le> max fl (e * d)" by simp
qed

lemma train_step_epsilon_bounds:
  assumes "0 \<le> epsilon_end a" "epsilon_end a \<le> epsilon a" "epsilon_decay a \<le> 1"
  shows "epsilon (fst (train_step f learn rs qi ti m a)) \<le> epsilon a"
    and "epsilon_end a \<le> epsilon (fst (train_step f learn rs qi ti m a))"
  using train_step_epsilon_cases[of f learn rs qi ti m a] decay_step_bounds[OF assms] assms(2)
  by auto

lemma train_steps_append:
  "train_steps f learn (calls @ later) a = train_steps f learn later (train_steps f learn calls a)"
  by (induction calls arbitrary: a) auto

lemma train_steps_config:
  "epsilon_end (train_steps f learn calls a) = epsilon_end a
   \<and> epsilon_decay (train_steps f learn calls a) = epsilon_decay a"
  by (induction calls arbitrary: a) (auto simp: train_step_config)

lemma train_steps_epsilon_bounds:
  assumes "0 \<le> epsilon_end a" "epsilon_end a \<le> epsilon a" "epsilon_decay a \<le> 1"
  shows "epsilon (train_steps f learn calls a) \<le> epsilon a
       \<and> epsilon_end a \<le> epsilon (train_steps f learn calls a)"
  using assms
proof (induction calls arbitrary: a)
  case Nil
  then show ?case by simp
next
  case (Cons c calls)
  obtain rs qi ti m where c: "c = (rs, qi, ti, m)" by (cases c) auto
  let ?b = "fst (train_step f learn rs qi ti m a)"
  have cfg: "epsilon_end ?b = epsilon_end a" "epsilon_decay ?b = epsilon_decay a"
    by (simp_all add: train_step_config)
  have b: "epsilon ?b \<le> epsilon a" "epsilon_end a \<le> epsilon ?b"
    using train_step_epsilon_bounds[OF Cons.prems, of f learn rs qi ti m] by simp_all
  have "epsilon (train_steps f learn calls ?b) \<le> epsilon ?b
       \<and> epsilon_end ?b \<le> epsilon (train_steps f learn calls ?b)"
    using Cons.prems b cfg by (intro Cons.IH) simp_all
  with b cfg show ?case by (simp add: c)
qed

text \<open>
  Claim C4, amended. For an agent whose floor is not negative, whose \<open>epsilon\<close> is not
  below the floor and whose decay factor is at most 1: across any sequence of successive
  \<open>train_step\<close> calls \<open>epsilon\<close> is non-increasing and never falls below \<open>epsilon_end\<close>, and
  each call either leaves \<open>epsilon\<close> unchanged or sets it to
  \<open>max epsilon_end (epsilon * epsilon_decay)\<close>.
\<close>

theorem epsilon_schedule:
  assumes "0 \<le> epsilon_end a" "epsilon_end a \<le> epsilon a" "epsilon_decay a \<le> 1"
  shows "epsilon (train_steps f learn (calls @ later) a) \<le> epsilon (train_steps f learn calls a)
       \<and> epsilon_end a \<le> epsilon (train_steps f learn calls a)
       \<and> (epsilon (fst (train_step f learn rs qi ti m (train_steps f learn calls a)))
              = epsilon (train_steps f learn calls a)
          \<or> epsilon (fst (train_step f learn rs qi ti m (train_steps f learn calls a)))
              = max (epsilon_end a) (epsilon (train_steps f learn calls a) * epsilon_decay a))"
proof -
  let ?b = "train_steps f learn calls a"
  have cfg: "epsilon_end ?b = epsilon_end a" "epsilon_decay ?b = epsilon_decay a"
    by (simp_all add: train_steps_config)
  have b: "epsilon ?b \<le> epsilon a" "epsilon_end a \<le> epsilon ?b"
    using train_steps_epsilon_bounds[OF assms, of f learn calls] by simp_all
  have "epsilon (train_steps f learn later ?b) \<le> epsilon ?b"
    using train_steps_epsilon_bounds[of ?b f learn later] assms b cfg by simp
  moreover note b(2)
  moreover have "epsilon (fst (train_step f learn rs qi ti m ?b)) = epsilon ?b
          \<or> epsilon (fst (train_step f learn rs qi ti m ?b))
              = max (epsilon_end a) (epsilon ?b * epsilon_decay a)"
    using train_step_epsilon_cases[of f learn rs qi ti m ?b] cfg by simp
  ultimately show ?thesis by (simp add: train_steps_append)
qed

text \<open>The training step of \<open>trained_agent\<close>, for any \<open>epsilon\<close>.\<close>

lemma sample_two: "sample float32_exact two_transitions 2 zero_stream
   = Inr ([[1], [2]], [0, 1], [1, 0], [[2], [3]], [False, True])"
  by code_simp

lemma two_transitions_length: "length (buffer two_transitions) = 2"
  by (simp add: two_transitions_def)

lemma train_step_trained:
  "train_step float32_exact learn_halve zero_stream 0 0 () (trained_agent\<lparr>epsilon := e\<rparr>)
   = (trained_agent\<lparr>epsilon := max (5 / 100) (e * (995 / 1000)), q_network := Built (1 / 2),
         target_network := Built (1 / 2), step_count := 2, loss_history := [1]\<rparr>, Inr (Some 1))"
  by (simp add: train_step_def trained_agent_def sample_two learn_halve_def Let_def
      update_target_network_def set_weights_def get_weights_def ebind_def two_transitions_length)

text \<open>
  Claim C4 (fails on the code). The claim: each call either leaves \<open>epsilon\<close> unchanged or
  multiplies it by the decay factor. Counterexample: with the default floor 0.05 and
  decay 0.995, a training step at \<open>epsilon = 0.0501\<close> sets \<open>epsilon\<close> to the floor 0.05,
  which is neither 0.0501 nor \<open>0.0501 * 0.995 = 0.0498495\<close>.
\<close>

theorem epsilon_clamped_to_floor:
  "epsilon (fst (train_step float32_exact learn_halve zero_stream 0 0 () (trained_agent\<lparr>epsilon := 501 / 10000\<rparr>)))
     = 5 / 100
   \<and> epsilon (trained_agent\<lparr>epsilon := 501 / 10000\<rparr>) = 501 / 10000
   \<and> epsilon (trained_agent\<lparr>epsilon := 501 / 10000\<rparr>)
       * epsilon_decay (trained_agent\<lparr>epsilon := 501 / 10000\<rparr>) = 498495 / 10000000"
  by (simp add: train_step_trained) (simp add: trained_agent_def)

text \<open>Without the hypothesis \<open>epsilon_end \<le> epsilon\<close> a training step can raise
  \<open>epsilon\<close>: an agent constructed with \<open>epsilon_start = 0.01\<close> below the floor 0.05.\<close>

lemma epsilon_raised_to_floor:
  "epsilon (fst (train_step float32_exact learn_halve zero_stream 0 0 () (trained_agent\<lparr>epsilon := 1 / 100\<rparr>)))
     = 5 / 100"
  by (simp add: train_step_trained)

theorem epsilon_schedule_witness:
  "epsilon (train_steps float32_exact learn_halve ([(zero_stream, 0, 0, ())] @ [(zero_stream, 0, 0, ())]) trained_agent)
     \<le> epsilon (train_steps float32_exact learn_halve [(zero_stream, 0, 0, ())] trained_agent)
   \<and> 5 / 100 \<le> epsilon (train_steps float32_exact learn_halve [(zero_stream, 0, 0, ())] trained_agent)
   \<and> epsilon (train_steps float32_exact learn_halve [(zero_stream, 0, 0, ())] trained_agent) = 995 / 1000"
proof -
  have h: "0 \<le> epsilon_end trained_agent" "epsilon_end trained_agent \<le> epsilon trained_agent"
    "epsilon_decay trained_agent \<le> 1"
    by (simp_all add: trained_agent_def)
  have e: "epsilon_end trained_agent = 5 / 100" by (simp add: trained_agent_def)
  have t: "trained_agent\<lparr>epsilon := 1\<rparr> = trained_agent" by (simp add: trained_agent_def)
  have s: "epsilon (train_steps float32_exact learn_halve [(zero_stream, 0, 0, ())] trained_agent) = 995 / 1000"
    using train_step_trained[of 1] by (simp add: t)
  from epsilon_schedule[OF h, of float32_exact learn_halve "[(zero_stream, 0, 0, ())]" "[(zero_stream, 0, 0, ())]"]
    e s show ?thesis by simp
qed

lemma update_target_network_built:
  assumes "q_network a = Built w" "target_network a = Built t"
  shows "update_target_network a = Inr (a\<lparr>target_network := Built w\<rparr>)"
  using assms by (simp add: update_target_network_def set_weights_def get_weights_def ebind_def)

text \<open>When only one of the two networks has variables, \<open>set_weights\<close> refuses the list.\<close>

lemma update_target_network_half_built:
  "q_network a = Built w \<Longrightarrow> target_network a = Unbuilt \<Longrightarrow>
   update_target_network a = Inl ValueError"
  by (simp add: update_target_network_def set_weights_def get_weights_def ebind_def)

text \<open>Between networks that have their variables the synchronisation is a copy, after
  which the two networks agree on every probe state.\<close>

lemma update_target_network_copies:
  assumes "q_network a = Built w" "target_network a = Built t"
  shows "\<exists>a'. update_target_network a = Inr a' \<and> q_network a' = Built w
            \<and> target_network a' = Built w
            \<and> (\<forall>forward i1 i2 s. snd (call_network forward (target_network a') i1 s)
                                  = snd (call_network forward (q_network a') i2 s))"
  using update_target_network_built[OF assms] assms(1) by (simp add: call_network_def)

text \<open>A training step that returns a loss has incremented the step counter, with a
  period that is not 0, and has synchronised the target network exactly when the new
  counter is a multiple of the period; otherwise the target network keeps the weights it
  had in the step. Both networks have their variables at the synchronisations of
  training steps.\<close>

lemma train_step_sync:
  assumes "train_step f learn rs qi ti m a = (a', Inr (Some loss))"
  shows "step_count a' = step_count a + 1 \<and> target_update_freq a \<noteq> 0
       \<and> (\<exists>q'. q_network a' = Built q'
            \<and> target_network a'
                = (if step_count a' mod target_update_freq a = 0 then Built q'
                   else Built (case target_network a of Unbuilt \<Rightarrow> ti | Built t \<Rightarrow> t)))"
proof -
  from assms have w: "\<not> int (length (buffer (memory a))) < batch_size a"
    by (auto simp: train_step_def)
  from assms w obtain batch where
    s: "sample f (memory a) (batch_size a) rs = Inr batch"
    by (cases "sample f (memory a) (batch_size a) rs") (auto simp: train_step_def)
  define q where "q = (case q_network a of Unbuilt \<Rightarrow> qi | Built w \<Rightarrow> w)"
  define t where "t = (case target_network a of Unbuilt \<Rightarrow> ti | Built w \<Rightarrow> w)"
  from assms w s obtain q' opt' l where
    l: "learn (gamma a) q t (optimizer a) m batch = Inr (q', opt', l)"
    by (cases "learn (gamma a) q t (optimizer a) m batch")
       (auto simp: train_step_def Let_def q_def t_def)
  from assms w s l have f: "target_update_freq a \<noteq> 0"
    by (auto simp: train_step_def Let_def q_def t_def)
  from assms w s l f show ?thesis
    by (auto simp: train_step_def Let_def q_def t_def update_target_network_def
        set_weights_def get_weights_def ebind_def split: if_splits)
qed

text \<open>The training step of \<open>trained_agent\<close> is such a step: the new counter 2 is a
  multiple of the period 2, and the target network takes the new online weight.\<close>

lemma train_step_sync_trained:
  "target_network (fst (train_step float32_exact learn_halve zero_stream 0 0 () trained_agent))
     = Built (1 / 2)
   \<and> q_network (fst (train_step float32_exact learn_halve zero_stream 0 0 () trained_agent))
     = Built (1 / 2)"
proof -
  have t: "trained_agent\<lparr>epsilon := 1\<rparr> = trained_agent" by (simp add: trained_agent_def)
  show ?thesis using train_step_trained[of 1] by (simp add: t)
qed

text \<open>
  Claim C5 (fails on the code). The claim: immediately after \<open>update_target_network\<close> the
  target network has the parameters of the online network, so that both give the same
  action values on every probe state. On the agent as constructed, whose networks have
  no variables yet, \<open>update_target_network\<close> copies an empty list of weights and changes
  nothing; called on the probe state \<open>[1, 2]\<close>, each network then takes the weights its
  own initialiser draws (here 1 and 2), and the action values differ.
\<close>

theorem sync_unbuilt_disagrees:
  "update_target_network fresh_agent = Inr fresh_agent
   \<and> snd (call_network forward_scale (q_network fresh_agent) 1 [1, 2]) = [1, 2]
   \<and> snd (call_network forward_scale (target_network fresh_agent) 2 [1, 2]) = [2, 4]"
  by (simp add: update_target_network_def set_weights_def get_weights_def ebind_def
      fresh_agent_def call_network_def forward_scale_def)

text \<open>The constructor leaves both networks without variables, whatever its arguments:
  its \<open>update_target_network\<close> finds no weights to copy.\<close>

lemma DQNAgent_unbuilt:
  "\<exists>a. DQNAgent adam sd ad lr es ee ed g f b = Inr a
       \<and> q_network a = Unbuilt \<and> target_network a = Unbuilt"
  by (simp add: DQNAgent_def DQNNetwork_def update_target_network_def set_weights_def
      get_weights_def ebind_def)

lemma DQNAgent_fresh:
  "DQNAgent adam_rate 581 5 (1 / 10000) 1 (5 / 100) (995 / 1000) (99 / 100) 1000 64
   = Inr fresh_agent"
  by (simp add: DQNAgent_def DQNNetwork_def update_target_network_def set_weights_def
      get_weights_def ebind_def fresh_agent_def adam_rate_def)

text \<open>
  Claim C9 (fails on the code). The claim: immediately after construction the target
  network has the parameters of the online network, so that the two networks agree on
  every probe state from step zero. The agent constructed with the defaults of the
  source has no variables in either network; the first greedy action on the state
  \<open>[1, 2]\<close> builds the online network from its initialiser's draw (here 1), the target
  network is built from its own draw (here 2) when it is first called, and their action
  values on \<open>[1, 2]\<close> are \<open>[1, 2]\<close> and \<open>[2, 4]\<close>.
\<close>

theorem constructed_networks_disagree:
  "(case DQNAgent adam_rate 581 5 (1 / 10000) 1 (5 / 100) (995 / 1000) (99 / 100) 1000 64 of
      Inl e \<Rightarrow> False
    | Inr a \<Rightarrow> q_network a = Unbuilt \<and> target_network a = Unbuilt
        \<and> snd (select_action forward_scale a [1, 2] False 0 0 1) = Inr 1
        \<and> snd (call_network forward_scale (q_network a) 1 [1, 2]) = [1, 2]
        \<and> snd (call_network forward_scale (target_network a) 2 [1, 2]) = [2, 4])"
  unfolding DQNAgent_fresh
  by (simp add: fresh_agent_def call_network_def forward_scale_def select_action_def argmax_def)

text \<open>
  Claim C10 (fails on the code). The claim: a greedy \<open>select_action\<close> consumes no random
  source and leaves the agent's parameters unchanged. Counterexample: on the agent as
  constructed the call creates the online network's variables from the initialiser's
  random draw, and the action depends on that draw (action 1 for the draw 1, action 0
  for the draw -1).
\<close>

theorem select_action_builds_network:
  "q_network fresh_agent = Unbuilt
   \<and> q_network (fst (select_action forward_scale fresh_agent [1, 2] False 0 0 1)) = Built 1
   \<and> snd (select_action forward_scale fresh_agent [1, 2] False 0 0 1) = Inr 1
   \<and> snd (select_action forward_scale fresh_agent [1, 2] False 0 0 (- 1)) = Inr 0"
  by (simp add: fresh_agent_def select_action_def call_network_def forward_scale_def argmax_def)

text \<open>
  Claim C10, amended. For every agent whose online network has its variables and every
  state, a greedy \<open>select_action\<close> returns the arg-max action of the online network's
  values, a function of the weights and the state alone: it does not depend on the
  random inputs \<open>u\<close>, \<open>r\<close> and \<open>init\<close>, and two calls give the same action. The call
  leaves the agent unchanged.
\<close>

theorem select_action_greedy:
  assumes "q_network a = Built w"
  shows "select_action forward a state False u r init = (a, argmax (forward w state))"
  using assms by (simp add: select_action_def call_network_def)

theorem select_action_greedy_witness:
  "select_action forward_scale trained_agent [1, 2] False 0 0 7 = (trained_agent, Inr 1)"
proof -
  have "q_network trained_agent = Built 1" by (simp add: trained_agent_def)
  from select_action_greedy[OF this, of forward_scale "[1, 2]" 0 0 7]
  show ?thesis by (simp add: forward_scale_def argmax_def)
qed

section \<open>Properties of the checkpoints\<close>

text \<open>
  Claim C8. For every agent state, \<open>save\<close> followed by \<open>load\<close> on the same path returns
  normally and restores \<open>epsilon\<close>, the step counter and the loss history to the values
  they had at save time, whatever agent loads and whatever the file system held before.
\<close>

theorem save_load_roundtrip:
  "snd (load b filepath (save a filepath fs)) = Inr ()
   \<and> epsilon (fst (load b filepath (save a filepath fs))) = epsilon a
   \<and> step_count (fst (load b filepath (save a filepath fs))) = step_count a
   \<and> loss_history (fst (load b filepath (save a filepath fs))) = loss_history a"
  by (simp add: load_def save_def load_weights_def Let_def split: dqn_network.splits)

end
